theory Spec2Isabelle
  imports Complex_Main "HOL-Library.Log_Nat"
begin

section \<open>Ticket classification: JavaScript values\<close>

text \<open>
  The route \<^verbatim>\<open>classify-ticket\<close> is TypeScript. A JavaScript \<^verbatim>\<open>number\<close> is an IEEE 754
  double. A finite double is modelled by the rational it denotes, and every arithmetic
  operation of the route by the exact operation followed by the rounding \<open>double\<close> to
  the nearest double, a tie going to the even significand. A positive rational \<open>x\<close>
  lies in one binade, \<open>2\<^sup>e \<le> x < 2\<^sup>e\<^sup>+\<^sup>1\<close>, where the doubles are the multiples of
  \<open>2\<^sup>e\<^sup>-\<^sup>5\<^sup>2\<close>. The exponent is not bounded: the infinities, \<^verbatim>\<open>NaN\<close> and the
  subnormal numbers are left out of the typed records below.
\<close>

definition pow2 :: "int \<Rightarrow> rat" where
  "pow2 k = (if 0 \<le> k then 2 ^ nat k else 1 / 2 ^ nat (- k))"

definition binade :: "rat \<Rightarrow> int" where
  "binade x =
     (case quotient_of x of
        (a, b) \<Rightarrow> (let d = bitlen a - bitlen b in if pow2 d \<le> x then d else d - 1))"

definition round_half_even :: "rat \<Rightarrow> int" where
  "round_half_even q =
     (let n = \<lfloor>q\<rfloor>; r = q - of_int n
      in if r < 1 / 2 then n else if 1 / 2 < r then n + 1 else if even n then n else n + 1)"

definition double :: "rat \<Rightarrow> rat" where
  "double x =
     (if x = 0 then 0
      else (let u = pow2 (binade \<bar>x\<bar> - 52)
            in sgn x * of_int (round_half_even (\<bar>x\<bar> / u)) * u))"

text \<open>
  The operators \<^verbatim>\<open>*\<close>, \<^verbatim>\<open>+\<close>, \<^verbatim>\<open>-\<close> and \<^verbatim>\<open>/\<close> on doubles. A decimal literal of
  the source such as \<^verbatim>\<open>0.4\<close> is the double nearest to it.
\<close>

definition times_double :: "rat \<Rightarrow> rat \<Rightarrow> rat" where
  "times_double x y = double (x * y)"

definition plus_double :: "rat \<Rightarrow> rat \<Rightarrow> rat" where
  "plus_double x y = double (x + y)"

definition minus_double :: "rat \<Rightarrow> rat \<Rightarrow> rat" where
  "minus_double x y = double (x - y)"

definition divide_double :: "rat \<Rightarrow> rat \<Rightarrow> rat" where
  "divide_double x y = double (x / y)"

text \<open>
  \<^verbatim>\<open>Math.round\<close> returns the integer nearest to its argument, a half going up; the
  result is exact.
\<close>

definition Math_round :: "rat \<Rightarrow> rat" where
  "Math_round x = of_int \<lfloor>x + 1 / 2\<rfloor>"

definition Math_min :: "rat \<Rightarrow> rat \<Rightarrow> rat" where
  "Math_min x y = (if x \<le> y then x else y)"

text \<open>
  A template literal \<^verbatim>\<open>${n}\<close> writes a non-negative integer in decimal.
\<close>

definition digit_char :: "nat \<Rightarrow> char" where
  "digit_char d = char_of (48 + d)"

function String_of_nat :: "nat \<Rightarrow> string" where
  "String_of_nat n =
     (if n < 10 then [digit_char n]
      else String_of_nat (n div 10) @ [digit_char (n mod 10)])"
  by pat_completeness auto
termination
  by (relation "measure (\<lambda>n. n)") auto

declare String_of_nat.simps [simp del]

section \<open>Data model\<close>

text \<open>
  The object the prompt asks the generative model for: a primary group and a list of
  alternative groups, each with a name, a confidence and a reasoning.
\<close>

record GroupScore =
  name :: string
  confidence :: rat
  reasoning :: string

record ClassificationResult =
  primaryGroup :: GroupScore
  alternativeGroups :: "GroupScore list"

text \<open>
  The parameter type of the reconciler,
  \<^verbatim>\<open>Array<{name: string, confidence: number, count: number}>\<close>.
\<close>

record SimilarityMatch =
  name :: string
  confidence :: rat
  count :: nat

record FinalRecommendation =
  group :: string
  confidence :: rat
  source :: string
  reasoning :: string

section \<open>The reconciler\<close>

text \<open>
  \<^verbatim>\<open>determineFinalRecommendation(openAIResult, vectorResults)\<close>: the five return
  statements of the source in their order. \<^verbatim>\<open>Array.prototype.find\<close> returns the
  first entry that satisfies the test, as \<^const>\<open>List.find\<close> does.
\<close>

definition determineFinalRecommendation ::
  "ClassificationResult \<Rightarrow> SimilarityMatch list \<Rightarrow> FinalRecommendation" where
  "determineFinalRecommendation openAIResult vectorResults =
     (case vectorResults of
        [] \<Rightarrow>
          \<lparr>group = GroupScore.name (primaryGroup openAIResult),
           confidence = GroupScore.confidence (primaryGroup openAIResult),
           source = ''pattern-based'',
           reasoning = GroupScore.reasoning (primaryGroup openAIResult)\<rparr>
      | r0 # _ \<Rightarrow>
          (let openAIPrimary = GroupScore.name (primaryGroup openAIResult);
               vectorPrimary = SimilarityMatch.name r0
           in if openAIPrimary = vectorPrimary then
                \<lparr>group = openAIPrimary,
                 confidence = Math_round
                   (plus_double
                      (times_double (GroupScore.confidence (primaryGroup openAIResult))
                         (double 0.4))
                      (times_double (SimilarityMatch.confidence r0) (double 0.6))),
                 source = ''combined'',
                 reasoning =
                   ''Both pattern analysis and historical data agree on this group. Based on ''
                   @ String_of_nat (count r0) @ '' similar historical tickets.''\<rparr>
              else
                (case List.find (\<lambda>r. SimilarityMatch.name r = openAIPrimary) vectorResults of
                   Some matchingVectorResult \<Rightarrow>
                     \<lparr>group = openAIPrimary,
                      confidence = Math_round
                        (plus_double
                           (times_double (GroupScore.confidence (primaryGroup openAIResult))
                              (double 0.7))
                           (times_double (SimilarityMatch.confidence matchingVectorResult)
                              (double 0.3))),
                      source = ''pattern-weighted'',
                      reasoning =
                        ''Pattern analysis suggests this group, with some support from historical data (''
                        @ String_of_nat (count matchingVectorResult) @ '' similar tickets).''\<rparr>
                 | None \<Rightarrow>
                     if SimilarityMatch.confidence r0 > 70 then
                       \<lparr>group = vectorPrimary,
                        confidence = SimilarityMatch.confidence r0,
                        source = ''history-weighted'',
                        reasoning =
                          ''Based primarily on '' @ String_of_nat (count r0)
                          @ '' similar historical tickets that were assigned to this group.''\<rparr>
                     else
                       \<lparr>group = openAIPrimary,
                        confidence = Math_min
                          (GroupScore.confidence (primaryGroup openAIResult)) 70,
                        source = ''pattern-based'',
                        reasoning = GroupScore.reasoning (primaryGroup openAIResult)
                          @ '' (Note: Historical data suggests different groups.)''\<rparr>)))"

section \<open>Exceptions and collaborators\<close>

text \<open>
  A value thrown in the route: \<open>Error\<close> is the route's own \<^verbatim>\<open>new Error(message)\<close>,
  \<open>TypeError\<close> is raised by the runtime when a property of \<^verbatim>\<open>undefined\<close> or
  \<^verbatim>\<open>null\<close> is read, and \<open>ProviderError\<close> is whatever an external client (the
  generative and embedding provider, the ticket store, the request body reader) throws.
\<close>

datatype exn = Error string | TypeError string | ProviderError string

text \<open>The error object a resolved call to the ticket store may carry.\<close>

datatype PostgrestError = PostgrestError (message: string)

fun message :: "exn \<Rightarrow> string" where
  "message (Error m) = m"
| "message (TypeError m) = m"
| "message (ProviderError m) = m"

text \<open>An awaited call to a collaborator either rejects with a thrown value or resolves.\<close>

datatype 'a awaited = Throws exn | Resolves 'a

text \<open>
  What \<^verbatim>\<open>JSON.parse\<close> returns. The built-in is not part of the repository and is a
  parameter \<open>JSON_parse\<close> of the functions that call it, \<open>None\<close> standing for the
  \<^verbatim>\<open>SyntaxError\<close> it throws.
\<close>

datatype json =
    JNull
  | JBool bool
  | JNumber rat
  | JString string
  | JArray "json list"
  | JObject "(string \<times> json) list"

section \<open>The pattern classifier\<close>

record SupportGroup =
  name :: string
  responsibilities :: string
  examples :: "string list"

definition supportGroups :: "SupportGroup list" where
  "supportGroups =
    [\<lparr>SupportGroup.name = ''Network Operations'',
       responsibilities =
         ''Handle network connectivity issues, VPN problems, internet outages, firewall configurations, and network hardware troubleshooting.'',
       examples =
         [''Cannot connect to VPN from home office'',
          ''Internet connection is very slow in the marketing department'',
          ''Unable to access network drives after moving to a new office'',
          ''Firewall is blocking access to required business applications'']\<rparr>,
     \<lparr>SupportGroup.name = ''Desktop Support'',
       responsibilities =
         ''Manage hardware issues, software installations, operating system problems, and peripheral device setup.'',
       examples =
         [''My laptop won't turn on'',
          ''Need Microsoft Office installed on my new computer'',
          ''Blue screen error when starting Windows'',
          ''Cannot connect my monitor to the docking station'']\<rparr>,
     \<lparr>SupportGroup.name = ''Application Support'',
       responsibilities =
         ''Resolve issues with business applications, software bugs, application access problems, and feature requests.'',
       examples =
         [''Cannot log into the CRM system'',
          ''Excel crashes when opening large spreadsheets'',
          ''Need access to the accounting software'',
          ''The reporting dashboard shows incorrect data'']\<rparr>,
     \<lparr>SupportGroup.name = ''Email & Collaboration'',
       responsibilities =
         ''Support email services, calendar functions, video conferencing tools, and collaboration platforms.'',
       examples =
         [''Not receiving emails from external senders'',
          ''Cannot schedule meetings in Outlook'',
          ''Teams call quality is poor during meetings'',
          ''Need to set up an email distribution list'']\<rparr>,
     \<lparr>SupportGroup.name = ''Security'',
       responsibilities =
         ''Address security incidents, suspicious activities, access control issues, and security policy compliance.'',
       examples =
         [''Received a suspicious phishing email'',
          ''Need to reset multi-factor authentication'',
          ''Concerned about potential malware on my computer'',
          ''Request for temporary elevated permissions'']\<rparr>,
     \<lparr>SupportGroup.name = ''Database Administration'',
       responsibilities =
         ''Manage database performance issues, data access problems, query optimization, and database maintenance.'',
       examples =
         [''Database server is running slowly'',
          ''Need access to the customer database'',
          ''Error when running SQL queries against the production database'',
          ''Database backup failed last night'']\<rparr>,
     \<lparr>SupportGroup.name = ''Server Operations'',
       responsibilities =
         ''Handle server hardware issues, operating system problems, virtualization, and server maintenance.'',
       examples =
         [''Production web server is down'',
          ''Need additional storage on the file server'',
          ''Server performance degradation after recent updates'',
          ''Virtual machine not starting properly'']\<rparr>]"

text \<open>The fixed parts of the template literals of \<^verbatim>\<open>generateSystemPrompt\<close>.\<close>

definition prompt_opening :: string where
  "prompt_opening =
     ''You are a ticket classification assistant for an IT helpdesk. Your task is to analyze the subject and description of a support ticket and determine which support group should handle it.\<newline>''
     @ ''\<newline>''
     @ ''Here are the support groups and their responsibilities:\<newline>''
     @ ''\<newline>''"

definition prompt_instructions :: string where
  "prompt_instructions =
     ''\<newline>''
     @ ''Analyze the ticket details and provide:\<newline>''
     @ ''1. The most appropriate support group\<newline>''
     @ ''2. A confidence score (0-100%)\<newline>''
     @ ''3. Brief reasoning for your classification\<newline>''
     @ ''4. Two alternative support groups that might also be appropriate (with lower confidence)\<newline>''
     @ ''\<newline>''
     @ ''Format your response as a JSON object with the following structure:\<newline>''
     @ ''{\<newline>''
     @ ''  \"primaryGroup\": {\<newline>''
     @ ''    \"name\": \"Support Group Name\",\<newline>''
     @ ''    \"confidence\": 85,\<newline>''
     @ ''    \"reasoning\": \"Brief explanation of why this group is most appropriate\"\<newline>''
     @ ''  },\<newline>''
     @ ''  \"alternativeGroups\": [\<newline>''
     @ ''    {\<newline>''
     @ ''      \"name\": \"Alternative Group 1\",\<newline>''
     @ ''      \"confidence\": 60,\<newline>''
     @ ''      \"reasoning\": \"Why this could also be appropriate\"\<newline>''
     @ ''    },\<newline>''
     @ ''    {\<newline>''
     @ ''      \"name\": \"Alternative Group 2\",\<newline>''
     @ ''      \"confidence\": 40,\<newline>''
     @ ''      \"reasoning\": \"Why this might be considered\"\<newline>''
     @ ''    }\<newline>''
     @ ''  ]\<newline>''
     @ ''}''"

text \<open>
  \<^verbatim>\<open>generateSystemPrompt()\<close>: the two \<^verbatim>\<open>forEach\<close> loops over the groups, the
  second with its inner loop over the examples, append to \<^verbatim>\<open>prompt\<close>.
\<close>

definition generateSystemPrompt :: string where
  "generateSystemPrompt =
     (let prompt = prompt_opening;
          prompt = foldl (\<lambda>prompt g.
                      prompt @ SupportGroup.name g @ '': '' @ responsibilities g @ ''\<newline>'')
                    prompt supportGroups;
          prompt = prompt
            @ ''\<newline>For each support group, here are some example tickets they would handle:\<newline>'';
          prompt = foldl (\<lambda>prompt g.
                      foldl (\<lambda>prompt example. prompt @ ''- '' @ example @ ''\<newline>'')
                        (prompt @ ''\<newline>'' @ SupportGroup.name g @ '' examples:\<newline>'')
                        (examples g))
                    prompt supportGroups
      in prompt @ prompt_instructions)"

text \<open>
  The request of \<^verbatim>\<open>openai.chat.completions.create\<close> and the part of its response the
  route reads: \<open>choices\<close> lists \<^verbatim>\<open>choices[i].message.content\<close>, which may be
  \<^verbatim>\<open>null\<close>. The provider is a function \<open>chat\<close> of the number of calls made before
  and of the request, so that a second call may be answered differently from the first.
\<close>

record ChatRequest =
  model :: string
  system_content :: string
  user_content :: string
  temperature :: rat

record ChatCompletion =
  choices :: "string option list"

text \<open>
  \<^verbatim>\<open>classifyWithOpenAI(subject, description)\<close>, with the argument of the provider
  call as \<open>chat_request\<close>. The result pairs what the function
  returns (\<open>Inr\<close>) or throws (\<open>Inl\<close>) with the number of provider calls made so far.
  The outer \<^verbatim>\<open>catch\<close> logs and rethrows, the inner one replaces the
  \<^verbatim>\<open>SyntaxError\<close> of \<^verbatim>\<open>JSON.parse\<close>. The empty string and \<^verbatim>\<open>null\<close> are the
  falsy contents.
\<close>

definition chat_request :: "string \<Rightarrow> string \<Rightarrow> ChatRequest" where
  "chat_request subject description =
     (let systemPrompt = generateSystemPrompt;
          userPrompt = ''Ticket Subject: '' @ subject @ ''\<newline>\<newline>Ticket Description: ''
            @ (if description = [] then ''No description provided'' else description)
      in \<lparr>model = ''gpt-3.5-turbo'', system_content = systemPrompt,
          user_content = userPrompt, temperature = 0.3\<rparr>)"

definition classifyWithOpenAI ::
  "(string \<Rightarrow> json option) \<Rightarrow> (nat \<Rightarrow> ChatRequest \<Rightarrow> ChatCompletion awaited) \<Rightarrow> nat
   \<Rightarrow> string \<Rightarrow> string \<Rightarrow> (exn + json) \<times> nat" where
  "classifyWithOpenAI JSON_parse chat calls subject description =
     (case chat calls (chat_request subject description) of
        Throws err \<Rightarrow> (Inl err, Suc calls)
      | Resolves response \<Rightarrow>
          (case choices response of
             [] \<Rightarrow>
               (Inl (TypeError ''Cannot read properties of undefined (reading 'message')''),
                Suc calls)
           | content # _ \<Rightarrow>
               (case content of
                  None \<Rightarrow> (Inl (Error ''No response from OpenAI''), Suc calls)
                | Some content \<Rightarrow>
                    if content = [] then (Inl (Error ''No response from OpenAI''), Suc calls)
                    else
                      (case JSON_parse content of
                         None \<Rightarrow>
                           (Inl (Error ''Failed to parse classification response''), Suc calls)
                       | Some parsed \<Rightarrow> (Inr parsed, Suc calls)))))"

text \<open>
  The shape the prompt describes, read off a parsed value: an object whose
  \<open>primaryGroup\<close> is an object with a string \<open>name\<close>, a number \<open>confidence\<close> and a
  string \<open>reasoning\<close>, and whose \<open>alternativeGroups\<close> is an array of such objects.
  This reading follows the specification's data model; the route contains no such check.
\<close>

fun member :: "json \<Rightarrow> string \<Rightarrow> json option" where
  "member (JObject props) key = map_of props key"
| "member _ key = None"

definition as_GroupScore :: "json \<Rightarrow> GroupScore option" where
  "as_GroupScore j =
     (case (member j ''name'', member j ''confidence'', member j ''reasoning'') of
        (Some (JString n), Some (JNumber c), Some (JString r)) \<Rightarrow>
          Some \<lparr>GroupScore.name = n, confidence = c, reasoning = r\<rparr>
      | _ \<Rightarrow> None)"

fun as_GroupScores :: "json list \<Rightarrow> GroupScore list option" where
  "as_GroupScores [] = Some []"
| "as_GroupScores (j # js) =
     (case (as_GroupScore j, as_GroupScores js) of
        (Some g, Some gs) \<Rightarrow> Some (g # gs)
      | _ \<Rightarrow> None)"

definition as_ClassificationResult :: "json \<Rightarrow> ClassificationResult option" where
  "as_ClassificationResult j =
     (case (member j ''primaryGroup'', member j ''alternativeGroups'') of
        (Some p, Some (JArray alts)) \<Rightarrow>
          (case (as_GroupScore p, as_GroupScores alts) of
             (Some g, Some gs) \<Rightarrow> Some \<lparr>primaryGroup = g, alternativeGroups = gs\<rparr>
           | _ \<Rightarrow> None)
      | _ \<Rightarrow> None)"


section \<open>The similarity classifier\<close>

subsection \<open>The ticket store and the embedding provider\<close>

text \<open>
  A resolved call to the store is the object \<^verbatim>\<open>{data, error, count}\<close>, each part
  possibly \<^verbatim>\<open>null\<close>. A row returned by \<^verbatim>\<open>match_tickets\<close> has the columns of the
  SQL function (\<open>id\<close>, \<open>subject\<close> and \<open>description\<close> under the names \<open>row_id\<close>,
  \<open>ticket_subject\<close> and \<open>ticket_description\<close>); \<open>assigned_group\<close> is the only one the
  route reads.
\<close>

record 'd PostgrestResponse =
  data :: "'d option"
  error :: "PostgrestError option"
  count :: "nat option"

record Ticket =
  row_id :: int
  ticket_id :: string
  ticket_subject :: string
  ticket_description :: string
  assigned_group :: "string option"
  similarity :: rat

text \<open>
  The answers of the store to the calls \<^verbatim>\<open>findSimilarTickets\<close> makes, each made at most
  once per request: the head count of \<^verbatim>\<open>ticket_history\<close>, the four schema procedures,
  the selection of one row with an embedding, and \<^verbatim>\<open>match_tickets\<close> as a function of
  the query embedding, the threshold and the match count.
\<close>

record Supabase =
  select_count :: "unit PostgrestResponse awaited"
  check_vector_extension :: "bool PostgrestResponse awaited"
  create_vector_extension :: "unit PostgrestResponse awaited"
  check_embedding_column :: "bool PostgrestResponse awaited"
  add_embedding_column :: "unit PostgrestResponse awaited"
  select_embedded :: "int list PostgrestResponse awaited"
  match_tickets :: "rat list \<Rightarrow> rat \<Rightarrow> nat \<Rightarrow> Ticket list PostgrestResponse awaited"

text \<open>
  \<^verbatim>\<open>generateEmbedding(text)\<close>: the provider \<open>embeddings\<close> takes the model and the input
  and resolves to the list of the embeddings \<^verbatim>\<open>data[i].embedding\<close>; the function reads
  the first and rethrows what the call throws.
\<close>

definition generateEmbedding ::
  "(string \<Rightarrow> string \<Rightarrow> rat list list awaited) \<Rightarrow> string \<Rightarrow> exn + rat list" where
  "generateEmbedding embeddings text =
     (case embeddings ''text-embedding-ada-002'' text of
        Throws err \<Rightarrow> Inl err
      | Resolves response_data \<Rightarrow>
          (case response_data of
             [] \<Rightarrow> Inl (TypeError ''Cannot read properties of undefined (reading 'embedding')'')
           | first # _ \<Rightarrow> Inr first))"

text \<open>
  \<^verbatim>\<open>String.prototype.trim\<close>. A string is a list of code units below 256, and the
  white space and line terminators of the language in that range are removed at both
  ends: the tab, the line feed, the vertical tab, the form feed, the carriage return,
  the space and the no-break space.
\<close>

definition is_whitespace :: "char \<Rightarrow> bool" where
  "is_whitespace c = ((of_char c :: int) \<in> {9, 10, 11, 12, 13, 32, 160})"

definition trim :: "string \<Rightarrow> string" where
  "trim s = rev (dropWhile is_whitespace (rev (dropWhile is_whitespace s)))"

subsection \<open>The tally object\<close>

text \<open>
  \<^verbatim>\<open>groupCounts\<close> is an ordinary object \<^verbatim>\<open>{}\<close> used as a dictionary, so three rules
  of the language matter. Its own properties are listed in the order of their creation.
  A key that is no own property is looked up on \<^verbatim>\<open>Object.prototype\<close>, whose members
  are functions (and, for \<^verbatim>\<open>__proto__\<close>, an accessor that yields the prototype object
  and ignores the assignment of a string). And \<^verbatim>\<open>Object.entries\<close> lists the keys that
  are array indices first, in ascending numeric order, then the other keys in the order
  of their creation.

  A property value is a number \<open>Count n\<close> or, after an inherited member was read, a
  string: \<open>Garbled m k\<close> stands for the text of the member \<open>m\<close> of
  \<^verbatim>\<open>Object.prototype\<close> followed by \<open>k\<close> characters \<^verbatim>\<open>1\<close>.
\<close>

datatype property = Count nat | Garbled string nat

definition Object_prototype_members :: "string list" where
  "Object_prototype_members =
     [''constructor'', ''__defineGetter__'', ''__defineSetter__'', ''hasOwnProperty'',
      ''__lookupGetter__'', ''__lookupSetter__'', ''isPrototypeOf'',
      ''propertyIsEnumerable'', ''toString'', ''valueOf'', ''__proto__'',
      ''toLocaleString'']"

text \<open>The value of \<^verbatim>\<open>(groupCounts[key] || 0) + 1\<close>, given the own property if any.\<close>

definition plus_one :: "string \<Rightarrow> property option \<Rightarrow> property" where
  "plus_one key own =
     (case own of
        Some (Count n) \<Rightarrow> Count (n + 1)
      | Some (Garbled m k) \<Rightarrow> Garbled m (k + 1)
      | None \<Rightarrow> if key \<in> set Object_prototype_members then Garbled key 1 else Count 1)"

text \<open>
  The assignment \<^verbatim>\<open>groupCounts[key] = value\<close>: an own property keeps its place, a new
  one is added at the end, and \<^verbatim>\<open>__proto__\<close> is never created.
\<close>

fun put :: "string \<Rightarrow> property \<Rightarrow> (string \<times> property) list \<Rightarrow> (string \<times> property) list" where
  "put key v [] = [(key, v)]"
| "put key v ((k, w) # props) = (if k = key then (key, v) # props else (k, w) # put key v props)"

definition assign :: "string \<Rightarrow> property \<Rightarrow> (string \<times> property) list \<Rightarrow> (string \<times> property) list" where
  "assign key v props = (if key = ''__proto__'' then props else put key v props)"

text \<open>
  The \<^verbatim>\<open>forEach\<close> over the returned tickets, on the pair of \<^verbatim>\<open>groupCounts\<close> and
  \<^verbatim>\<open>totalMatches\<close>. The test \<^verbatim>\<open>if (ticket.assigned_group)\<close> fails for
  \<^verbatim>\<open>null\<close> and for the empty string.
\<close>

fun count_groups ::
  "Ticket list \<Rightarrow> (string \<times> property) list \<times> nat \<Rightarrow> (string \<times> property) list \<times> nat" where
  "count_groups [] acc = acc"
| "count_groups (ticket # tickets) (groupCounts, totalMatches) =
     (case assigned_group ticket of
        None \<Rightarrow> count_groups tickets (groupCounts, totalMatches)
      | Some g \<Rightarrow>
          if g = [] then count_groups tickets (groupCounts, totalMatches)
          else count_groups tickets
                 (assign g (plus_one g (map_of groupCounts g)) groupCounts, totalMatches + 1))"

text \<open>
  An array index is the canonical decimal numeral of a natural number below
  \<open>2\<^sup>3\<^sup>2 - 1\<close>.
\<close>

definition is_digit :: "char \<Rightarrow> bool" where
  "is_digit c = (48 \<le> (of_char c :: int) \<and> (of_char c :: int) \<le> 57)"

definition int_of_digits :: "string \<Rightarrow> int" where
  "int_of_digits s = foldl (\<lambda>n c. 10 * n + (of_char c - 48)) 0 s"

definition is_array_index :: "string \<Rightarrow> bool" where
  "is_array_index s =
     (s \<noteq> [] \<and> list_all is_digit s \<and> (s = ''0'' \<or> hd s \<noteq> CHR ''0'')
      \<and> int_of_digits s < 2 ^ 32 - 1)"

definition Object_entries :: "(string \<times> property) list \<Rightarrow> (string \<times> property) list" where
  "Object_entries props =
     sort_key (\<lambda>(k, v). int_of_digits k) (filter (\<lambda>(k, v). is_array_index k) props)
     @ filter (\<lambda>(k, v). \<not> is_array_index k) props"

subsection \<open>Confidences\<close>

text \<open>
  The numbers of the entries: a double or \<^verbatim>\<open>NaN\<close>, which is what a garbled count
  converts to. The divisor \<^verbatim>\<open>totalMatches\<close> is never 0 where an entry exists, and the
  infinities are not modelled.
\<close>

datatype number = Num rat | NaN

fun ToNumber :: "property \<Rightarrow> number" where
  "ToNumber (Count n) = Num (of_nat n)"
| "ToNumber (Garbled m k) = NaN"

fun divide_number :: "number \<Rightarrow> number \<Rightarrow> number" where
  "divide_number (Num x) (Num y) = (if y = 0 then NaN else Num (divide_double x y))"
| "divide_number _ _ = NaN"

fun times_number :: "number \<Rightarrow> number \<Rightarrow> number" where
  "times_number (Num x) (Num y) = Num (times_double x y)"
| "times_number _ _ = NaN"

fun minus_number :: "number \<Rightarrow> number \<Rightarrow> number" where
  "minus_number (Num x) (Num y) = Num (minus_double x y)"
| "minus_number _ _ = NaN"

fun round_number :: "number \<Rightarrow> number" where
  "round_number (Num x) = Num (Math_round x)"
| "round_number NaN = NaN"

record GroupConfidence =
  name :: string
  confidence :: number
  count :: property

definition group_confidence :: "nat \<Rightarrow> string \<times> property \<Rightarrow> GroupConfidence" where
  "group_confidence totalMatches entry =
     (case entry of (g, c) \<Rightarrow>
        \<lparr>name = g,
         confidence = round_number
           (times_number (divide_number (ToNumber c) (Num (of_nat totalMatches))) (Num 100)),
         count = c\<rparr>)"

text \<open>
  \<^verbatim>\<open>groupConfidence.sort((a, b) => b.confidence - a.confidence)\<close>. The sort is
  stable: an element moves behind another only where the comparator is positive, and a
  comparator value \<^verbatim>\<open>NaN\<close> counts as 0. (With a \<^verbatim>\<open>NaN\<close> among the confidences the
  comparator is not consistent and the language leaves the order to the engine; the
  insertion order below is then one possible outcome.)
\<close>

definition compare_confidence :: "GroupConfidence \<Rightarrow> GroupConfidence \<Rightarrow> number" where
  "compare_confidence a b = minus_number (GroupConfidence.confidence b) (GroupConfidence.confidence a)"

fun positive :: "number \<Rightarrow> bool" where
  "positive (Num x) = (0 < x)"
| "positive NaN = False"

fun insert_sorted :: "GroupConfidence \<Rightarrow> GroupConfidence list \<Rightarrow> GroupConfidence list" where
  "insert_sorted a [] = [a]"
| "insert_sorted a (b # bs) =
     (if positive (compare_confidence a b) then b # insert_sorted a bs else a # b # bs)"

definition Array_sort :: "GroupConfidence list \<Rightarrow> GroupConfidence list" where
  "Array_sort xs = foldr insert_sorted xs []"

subsection \<open>The classifier\<close>

record SimilarityOutcome =
  success :: bool
  error :: "string option"
  results :: "GroupConfidence list"
  similarTickets :: "Ticket list"

definition failure :: "string \<Rightarrow> SimilarityOutcome" where
  "failure reason = \<lparr>success = False, error = Some reason, results = [], similarTickets = []\<rparr>"

text \<open>
  The inner \<^verbatim>\<open>try\<close> of \<^verbatim>\<open>findSimilarTickets\<close>, from the call of
  \<^verbatim>\<open>match_tickets\<close> to the successful return. Its \<^verbatim>\<open>catch\<close> takes every exception:
  the rejected call and the \<^verbatim>\<open>TypeError\<close> of \<^verbatim>\<open>similarTickets.forEach\<close> when the
  data is \<^verbatim>\<open>null\<close>.
\<close>

definition query_similar_tickets :: "Supabase \<Rightarrow> rat list \<Rightarrow> SimilarityOutcome" where
  "query_similar_tickets supabase embedding =
     (case match_tickets supabase embedding 0.5 5 of
        Throws rpcError \<Rightarrow> failure ''Vector similarity search failed''
      | Resolves response \<Rightarrow>
          (case PostgrestResponse.error response of
             Some err \<Rightarrow> failure (PostgrestError.message err)
           | None \<Rightarrow>
               (case data response of
                  None \<Rightarrow> failure ''Vector similarity search failed''
                | Some tickets \<Rightarrow>
                    (case count_groups tickets ([], 0) of
                       (groupCounts, totalMatches) \<Rightarrow>
                         \<lparr>success = True, error = None,
                          results = Array_sort
                            (map (group_confidence totalMatches) (Object_entries groupCounts)),
                          similarTickets = tickets\<rparr>))))"

text \<open>
  The outer \<^verbatim>\<open>try\<close> block: \<open>Inl\<close> is an exception that reaches the outer
  \<^verbatim>\<open>catch\<close>, \<open>Inr\<close> a \<^verbatim>\<open>return\<close>. The two creation calls sit in their own
  \<^verbatim>\<open>try\<close>, which returns a failure when the call throws; what a creation call
  resolves to is not read.
\<close>

definition findSimilarTickets_try ::
  "Supabase \<Rightarrow> (string \<Rightarrow> string \<Rightarrow> rat list list awaited) \<Rightarrow> string \<Rightarrow> string
   \<Rightarrow> exn + SimilarityOutcome" where
  "findSimilarTickets_try supabase embeddings subject description =
     (case select_count supabase of
        Throws e \<Rightarrow> Inl e
      | Resolves table_check \<Rightarrow>
          if PostgrestResponse.error table_check \<noteq> None then
            Inr (failure ''Ticket history table not accessible'')
          else if PostgrestResponse.count table_check = Some 0 then
            Inr (failure ''No historical tickets available'')
          else
     (case check_vector_extension supabase of
        Throws e \<Rightarrow> Inl e
      | Resolves extension_check \<Rightarrow>
          if PostgrestResponse.error extension_check \<noteq> None
             \<and> (case create_vector_extension supabase of Throws err \<Rightarrow> True | Resolves _ \<Rightarrow> False)
          then Inr (failure ''Vector extension not available'')
          else
     (case check_embedding_column supabase of
        Throws e \<Rightarrow> Inl e
      | Resolves column_check \<Rightarrow>
          if PostgrestResponse.error column_check \<noteq> None
             \<and> (case add_embedding_column supabase of Throws err \<Rightarrow> True | Resolves _ \<Rightarrow> False)
          then Inr (failure ''Embedding column could not be created'')
          else
     (case select_embedded supabase of
        Throws e \<Rightarrow> Inl e
      | Resolves embedding_check \<Rightarrow>
          if PostgrestResponse.error embedding_check \<noteq> None then
            Inr (failure ''Could not check for embeddings'')
          else if data embedding_check = None \<or> data embedding_check = Some [] then
            Inr (failure ''No tickets with embeddings'')
          else
     (case generateEmbedding embeddings (trim (subject @ '' '' @ description)) of
        Inl e \<Rightarrow> Inl e
      | Inr embedding \<Rightarrow> Inr (query_similar_tickets supabase embedding))))))"

text \<open>
  \<^verbatim>\<open>findSimilarTickets(subject, description)\<close>: the outer \<^verbatim>\<open>catch\<close> turns every
  exception of the block into a returned failure. The result is again a sum, \<open>Inl\<close>
  being an exception thrown to the caller.
\<close>

definition findSimilarTickets ::
  "Supabase \<Rightarrow> (string \<Rightarrow> string \<Rightarrow> rat list list awaited) \<Rightarrow> string \<Rightarrow> string
   \<Rightarrow> exn + SimilarityOutcome" where
  "findSimilarTickets supabase embeddings subject description =
     (case findSimilarTickets_try supabase embeddings subject description of
        Inl err \<Rightarrow> Inr (failure ''General error in vector similarity search'')
      | Inr outcome \<Rightarrow> Inr outcome)"


section \<open>The request handler\<close>

text \<open>
  The body of the request as \<^verbatim>\<open>request.json()\<close> resolves it, with the two properties
  the handler destructures; a missing property is \<open>None\<close>.
\<close>

record RequestBody =
  body_subject :: "string option"
  body_description :: "string option"

record VectorSimilarityClassification =
  recommendations :: "GroupConfidence list"
  similarTicketsCount :: nat
  confidence :: number
  success :: bool
  error :: "string option"

record ClassifyResponse =
  patternBasedClassification :: json
  vectorSimilarityClassification :: VectorSimilarityClassification
  finalRecommendation :: FinalRecommendation

datatype body = ErrorBody string | Classification ClassifyResponse

text \<open>\<^verbatim>\<open>NextResponse.json(body, {status})\<close>; the status is 200 when none is given.\<close>

datatype response = NextResponse_json body nat

text \<open>
  The handler passes the parsed value of the pattern classifier (of type \<^verbatim>\<open>any\<close>)
  and the similarity results (under a type assertion) to the reconciler, whose model
  above is typed. \<open>as_SimilarityMatch\<close> reads an entry at the asserted type; where the
  parsed value or an entry is not of that type, what JavaScript computes from it is
  outside this model, and the handler's result is \<open>Untyped\<close>.
\<close>

definition as_SimilarityMatch :: "GroupConfidence \<Rightarrow> SimilarityMatch option" where
  "as_SimilarityMatch e =
     (case (GroupConfidence.confidence e, GroupConfidence.count e) of
        (Num c, Count n) \<Rightarrow>
          Some \<lparr>SimilarityMatch.name = GroupConfidence.name e, confidence = c, count = n\<rparr>
      | _ \<Rightarrow> None)"

fun as_SimilarityMatches :: "GroupConfidence list \<Rightarrow> SimilarityMatch list option" where
  "as_SimilarityMatches [] = Some []"
| "as_SimilarityMatches (e # es) =
     (case (as_SimilarityMatch e, as_SimilarityMatches es) of
        (Some m, Some ms) \<Rightarrow> Some (m # ms)
      | _ \<Rightarrow> None)"

datatype handled = Responds response | Untyped

text \<open>The functions of the route a request has called, in the order of the calls.\<close>

datatype invocation =
  Called_classifyWithOpenAI | Called_findSimilarTickets | Called_determineFinalRecommendation

text \<open>
  \<^verbatim>\<open>POST(request)\<close>. Every exception inside the handler reaches its one
  \<^verbatim>\<open>catch\<close>, which answers with status 500 and the message of the exception.
\<close>

definition internal_error :: "exn \<Rightarrow> response" where
  "internal_error e =
     NextResponse_json (ErrorBody (''Failed to classify ticket: '' @ message e)) 500"

definition POST ::
  "(string \<Rightarrow> json option) \<Rightarrow> (nat \<Rightarrow> ChatRequest \<Rightarrow> ChatCompletion awaited)
   \<Rightarrow> (string \<Rightarrow> string \<Rightarrow> rat list list awaited) \<Rightarrow> Supabase
   \<Rightarrow> RequestBody awaited \<Rightarrow> handled \<times> invocation list" where
  "POST JSON_parse chat embeddings supabase request_json =
     (case request_json of
        Throws e \<Rightarrow> (Responds (internal_error e), [])
      | Resolves request_body \<Rightarrow>
          (case body_subject request_body of
             None \<Rightarrow> (Responds (NextResponse_json (ErrorBody ''Subject is required'') 400), [])
           | Some subject \<Rightarrow>
               if subject = [] then
                 (Responds (NextResponse_json (ErrorBody ''Subject is required'') 400), [])
               else
                 (let description =
                        (case body_description request_body of None \<Rightarrow> [] | Some d \<Rightarrow> d)
                  in case fst (classifyWithOpenAI JSON_parse chat 0 subject description) of
                       Inl e \<Rightarrow> (Responds (internal_error e), [Called_classifyWithOpenAI])
                     | Inr openAIClassification \<Rightarrow>
                         (case findSimilarTickets supabase embeddings subject description of
                            Inl e \<Rightarrow>
                              (Responds (internal_error e),
                               [Called_classifyWithOpenAI, Called_findSimilarTickets])
                          | Inr vectorResults \<Rightarrow>
                              (case (as_ClassificationResult openAIClassification,
                                     as_SimilarityMatches (results vectorResults)) of
                                 (Some pattern, Some matches) \<Rightarrow>
                                   (Responds (NextResponse_json (Classification
                                      \<lparr>patternBasedClassification = openAIClassification,
                                       vectorSimilarityClassification =
                                         \<lparr>recommendations = results vectorResults,
                                          similarTicketsCount =
                                            length (similarTickets vectorResults),
                                          confidence =
                                            (case results vectorResults of
                                               [] \<Rightarrow> Num 0
                                             | e # _ \<Rightarrow> GroupConfidence.confidence e),
                                          success = SimilarityOutcome.success vectorResults,
                                          error = SimilarityOutcome.error vectorResults\<rparr>,
                                       finalRecommendation =
                                         determineFinalRecommendation pattern matches\<rparr>) 200),
                                    [Called_classifyWithOpenAI, Called_findSimilarTickets,
                                     Called_determineFinalRecommendation])
                               | _ \<Rightarrow>
                                   (Untyped,
                                    [Called_classifyWithOpenAI, Called_findSimilarTickets,
                                     Called_determineFinalRecommendation]))))))"


section \<open>Concrete collaborators\<close>

text \<open>
  Collaborators for the concrete runs below. \<open>JSON_parse_table\<close> is \<^verbatim>\<open>JSON.parse\<close> on
  the texts of a table, which pairs each text with the value the built-in returns for it;
  every other text counts as a syntax error.
\<close>

definition JSON_parse_table :: "(string \<times> json) list \<Rightarrow> string \<Rightarrow> json option" where
  "JSON_parse_table table text = map_of table text"

definition chat_answers :: "string \<Rightarrow> nat \<Rightarrow> ChatRequest \<Rightarrow> ChatCompletion awaited" where
  "chat_answers text calls request = Resolves \<lparr>choices = [Some text]\<rparr>"

definition chat_fails :: "nat \<Rightarrow> ChatRequest \<Rightarrow> ChatCompletion awaited" where
  "chat_fails calls request = Throws (ProviderError ''429 You exceeded your current quota'')"

definition embeddings_answer :: "string \<Rightarrow> string \<Rightarrow> rat list list awaited" where
  "embeddings_answer model_name input = Resolves [[0, 1]]"

definition resolved :: "'d option \<Rightarrow> 'd PostgrestResponse awaited" where
  "resolved d = Resolves \<lparr>data = d, error = None, count = None\<rparr>"

definition rejected :: "string \<Rightarrow> 'd PostgrestResponse awaited" where
  "rejected m = Resolves \<lparr>data = None, error = Some (PostgrestError m), count = None\<rparr>"

definition neighbour :: "string \<Rightarrow> Ticket" where
  "neighbour g =
     \<lparr>row_id = 1, ticket_id = ''T-1'', ticket_subject = ''subject'',
      ticket_description = ''description'', assigned_group = Some g, similarity = 0.9\<rparr>"

text \<open>
  A store with three tickets, the extension, the column and an embedded row, whose
  \<^verbatim>\<open>match_tickets\<close> answers with the given response.
\<close>

definition ready_store :: "Ticket list PostgrestResponse awaited \<Rightarrow> Supabase" where
  "ready_store answer =
     \<lparr>select_count = Resolves \<lparr>data = None, error = None, count = Some 3\<rparr>,
      check_vector_extension = resolved (Some True),
      create_vector_extension = resolved None,
      check_embedding_column = resolved (Some True),
      add_embedding_column = resolved None,
      select_embedded = resolved (Some [1]),
      match_tickets = (\<lambda>embedding threshold limit. answer)\<rparr>"

text \<open>
  A provider that embeds one text only, with the model of the route, and a store like
  \<open>ready_store\<close> whose \<^verbatim>\<open>match_tickets\<close> answers one query only: that embedding, the
  threshold 0.5 and the count 5.
\<close>

definition embeddings_of :: "string \<Rightarrow> string \<Rightarrow> string \<Rightarrow> rat list list awaited" where
  "embeddings_of expected model_name input =
     (if model_name = ''text-embedding-ada-002'' \<and> input = expected then Resolves [[0, 1]]
      else Throws (ProviderError ''400 Bad Request''))"

definition strict_store :: "Ticket list \<Rightarrow> Supabase" where
  "strict_store tickets =
     (ready_store (resolved None))
       \<lparr>match_tickets := (\<lambda>embedding threshold limit.
          if embedding = [0, 1] \<and> threshold = 1 / 2 \<and> limit = 5 then resolved (Some tickets)
          else Throws (ProviderError ''fetch failed''))\<rparr>"

text \<open>
  The same store when the check of the extension reports an error and the creation
  procedure resolves with an error as well, without throwing.
\<close>

definition store_without_extension :: "Ticket list PostgrestResponse awaited \<Rightarrow> Supabase" where
  "store_without_extension answer =
     (ready_store answer)
       \<lparr>check_vector_extension := rejected ''extension \"vector\" is not available'',
        create_vector_extension := rejected ''permission denied to create extension \"vector\"''\<rparr>"

text \<open>A parsed classification with three alternatives, the first with the primary name.\<close>

definition three_alternatives_text :: string where
  "three_alternatives_text =
     ''{\"primaryGroup\":{\"name\":\"Security\",\"confidence\":90,\"reasoning\":\"r\"},''
     @ ''\"alternativeGroups\":[{\"name\":\"Security\",\"confidence\":50,\"reasoning\":\"a\"},''
     @ ''{\"name\":\"Desktop Support\",\"confidence\":40,\"reasoning\":\"b\"},''
     @ ''{\"name\":\"Network Operations\",\"confidence\":30,\"reasoning\":\"c\"}]}''"

definition group_object :: "string \<Rightarrow> rat \<Rightarrow> string \<Rightarrow> json" where
  "group_object n c r =
     JObject [(''name'', JString n), (''confidence'', JNumber c), (''reasoning'', JString r)]"

definition three_alternatives :: json where
  "three_alternatives =
     JObject
       [(''primaryGroup'', group_object ''Security'' 90 ''r''),
        (''alternativeGroups'',
         JArray [group_object ''Security'' 50 ''a'', group_object ''Desktop Support'' 40 ''b'',
                 group_object ''Network Operations'' 30 ''c''])]"


section \<open>Notions of the specification\<close>

text \<open>
  The words of the specification that the properties below are stated with. None of
  them is used by the models of the route above.

  The labelled neighbours: the groups of the returned rows in their order, the rows
  whose group is \<^verbatim>\<open>null\<close> or empty left out. \<open>first_seen\<close> keeps the first occurrence
  of every group, and \<open>key_order\<close> is the order in which an object lists these groups
  as keys: the array indices ascending, then the others as first seen.
\<close>

definition labels :: "Ticket list \<Rightarrow> string list" where
  "labels tickets =
     concat (map (\<lambda>t. case assigned_group t of
                         None \<Rightarrow> []
                       | Some g \<Rightarrow> if g = [] then [] else [g]) tickets)"

definition first_seen :: "string list \<Rightarrow> string list" where
  "first_seen gs = rev (remdups (rev gs))"

definition key_order :: "string list \<Rightarrow> string list" where
  "key_order gs =
     sort_key int_of_digits (filter is_array_index (first_seen gs))
     @ filter (\<lambda>g. \<not> is_array_index g) (first_seen gs)"

text \<open>
  The share of \<open>c\<close> among \<open>n\<close> labelled neighbours, in percent and rounded to an
  integer: \<open>share_of\<close> as the doubles give it, the quotient rounded to a double and its
  product with 100 rounded again, and \<open>exact_share_of\<close> in exact arithmetic. \<open>share\<close>
  is the share of a group among the labelled neighbours \<open>gs\<close>.
\<close>

definition share_of :: "nat \<Rightarrow> nat \<Rightarrow> rat" where
  "share_of c n = of_int \<lfloor>double (double (of_nat c / of_nat n) * 100) + 1 / 2\<rfloor>"

definition exact_share_of :: "nat \<Rightarrow> nat \<Rightarrow> rat" where
  "exact_share_of c n = of_int \<lfloor>(100 * of_nat c / of_nat n + 1 / 2 :: rat)\<rfloor>"

definition share :: "string list \<Rightarrow> string \<Rightarrow> rat" where
  "share gs g = share_of (count_list gs g) (length gs)"

text \<open>
  A string is the decimal numeral of a natural number: digits only, no leading zero,
  and the number as its value.
\<close>

definition is_decimal_of :: "string \<Rightarrow> nat \<Rightarrow> bool" where
  "is_decimal_of ds n =
     (ds \<noteq> [] \<and> list_all is_digit ds \<and> (ds = ''0'' \<or> hd ds \<noteq> CHR ''0'')
      \<and> int_of_digits ds = int n)"

text \<open>
  The failures of the collaborators, as answers to the calls of the classifier. The store
  is unreachable when the count throws or resolves with an error, and empty when the
  count is 0. A schema part is missing for good when its check throws, or resolves with
  an error and the creation call throws. There is nothing to compare with when the
  selection of an embedded row throws, resolves with an error or yields no row. The
  embedding fails when the provider throws or returns no embedding. The search fails
  when \<^verbatim>\<open>match_tickets\<close> throws, resolves with an error or resolves without data.
\<close>

definition store_unreachable :: "Supabase \<Rightarrow> bool" where
  "store_unreachable supabase =
     (case select_count supabase of
        Throws e \<Rightarrow> True
      | Resolves r \<Rightarrow> PostgrestResponse.error r \<noteq> None)"

definition store_empty :: "Supabase \<Rightarrow> bool" where
  "store_empty supabase =
     (case select_count supabase of
        Throws e \<Rightarrow> False
      | Resolves r \<Rightarrow> PostgrestResponse.count r = Some 0)"

definition creation_throws ::
  "'a PostgrestResponse awaited \<Rightarrow> 'b PostgrestResponse awaited \<Rightarrow> bool" where
  "creation_throws check creation =
     (case check of
        Throws e \<Rightarrow> True
      | Resolves r \<Rightarrow>
          PostgrestResponse.error r \<noteq> None
          \<and> (case creation of Throws e \<Rightarrow> True | Resolves c \<Rightarrow> False))"

definition no_embedded_rows :: "Supabase \<Rightarrow> bool" where
  "no_embedded_rows supabase =
     (case select_embedded supabase of
        Throws e \<Rightarrow> True
      | Resolves r \<Rightarrow>
          PostgrestResponse.error r \<noteq> None \<or> data r = None \<or> data r = Some [])"

definition embedding_fails ::
  "(string \<Rightarrow> string \<Rightarrow> rat list list awaited) \<Rightarrow> string \<Rightarrow> string \<Rightarrow> bool" where
  "embedding_fails embeddings subject description =
     (case generateEmbedding embeddings (trim (subject @ '' '' @ description)) of
        Inl e \<Rightarrow> True
      | Inr embedding \<Rightarrow> False)"

definition search_fails ::
  "Supabase \<Rightarrow> (string \<Rightarrow> string \<Rightarrow> rat list list awaited) \<Rightarrow> string \<Rightarrow> string \<Rightarrow> bool" where
  "search_fails supabase embeddings subject description =
     (case generateEmbedding embeddings (trim (subject @ '' '' @ description)) of
        Inl e \<Rightarrow> False
      | Inr embedding \<Rightarrow>
          (case match_tickets supabase embedding 0.5 5 of
             Throws e \<Rightarrow> True
           | Resolves r \<Rightarrow> PostgrestResponse.error r \<noteq> None \<or> data r = None))"

definition collaborator_failure ::
  "Supabase \<Rightarrow> (string \<Rightarrow> string \<Rightarrow> rat list list awaited) \<Rightarrow> string \<Rightarrow> string \<Rightarrow> bool" where
  "collaborator_failure supabase embeddings subject description =
     (store_unreachable supabase \<or> store_empty supabase
      \<or> creation_throws (check_vector_extension supabase) (create_vector_extension supabase)
      \<or> creation_throws (check_embedding_column supabase) (add_embedding_column supabase)
      \<or> no_embedded_rows supabase
      \<or> embedding_fails embeddings subject description
      \<or> search_fails supabase embeddings subject description)"

text \<open>The message of the error \<^verbatim>\<open>match_tickets\<close> resolves with, if it does.\<close>

definition search_error_message ::
  "Supabase \<Rightarrow> (string \<Rightarrow> string \<Rightarrow> rat list list awaited) \<Rightarrow> string \<Rightarrow> string
   \<Rightarrow> string option" where
  "search_error_message supabase embeddings subject description =
     (case generateEmbedding embeddings (trim (subject @ '' '' @ description)) of
        Inl e \<Rightarrow> None
      | Inr embedding \<Rightarrow>
          (case match_tickets supabase embedding 0.5 5 of
             Throws e \<Rightarrow> None
           | Resolves r \<Rightarrow> map_option PostgrestError.message (PostgrestResponse.error r)))"

text \<open>
  The entry of a group among the labelled neighbours \<open>gs\<close>, and the object the tally
  loop builds from them, in closed form.
\<close>

definition entry_of :: "string list \<Rightarrow> string \<Rightarrow> GroupConfidence" where
  "entry_of gs g =
     \<lparr>name = g, confidence = Num (share gs g), count = Count (count_list gs g)\<rparr>"

definition tally_of :: "string list \<Rightarrow> (string \<times> property) list" where
  "tally_of gs = map (\<lambda>g. (g, Count (count_list gs g))) (first_seen gs)"


section \<open>Properties of the rounding to doubles\<close>

text \<open>
  The exponent \<open>binade x\<close> is that of the binade of a positive \<open>x\<close>, so that the
  rounding keeps the sign, moves its argument by half a unit in the last place at most,
  and never passes an integer below \<open>2\<^sup>5\<^sup>3\<close>, which is a double itself.
\<close>

lemma pow2_power_int: "pow2 k = power_int 2 k"
  by (simp add: pow2_def power_int_def inverse_eq_divide power_one_over)

lemma pow2_pos [simp]: "0 < pow2 k"
  by (simp add: pow2_power_int)

lemma pow2_add: "pow2 (i + j) = pow2 i * pow2 j"
  by (simp add: pow2_power_int power_int_add)

lemma pow2_diff: "pow2 (i - j) = pow2 i / pow2 j"
  by (simp add: pow2_power_int power_int_diff)

lemma pow2_nat: "pow2 (int n) = 2 ^ n"
  by (simp add: pow2_def)

lemma pow2_strict_mono: "i < j \<Longrightarrow> pow2 i < pow2 j"
  unfolding pow2_power_int by (rule power_int_strict_increasing) simp_all

lemma pow2_mono: "i \<le> j \<Longrightarrow> pow2 i \<le> pow2 j"
  unfolding pow2_power_int by (rule power_int_increasing) simp_all

lemma pow2_less_iff: "pow2 i < pow2 j \<longleftrightarrow> i < j"
  by (metis leD leI pow2_mono pow2_strict_mono)

lemma pow2_le_iff: "pow2 i \<le> pow2 j \<longleftrightarrow> i \<le> j"
  by (metis leD leI pow2_mono pow2_strict_mono)

lemma pow2_1 [simp]: "pow2 1 = 2" and pow2_0 [simp]: "pow2 0 = 1"
  by (simp_all add: pow2_def)

lemma pow2_Suc: "pow2 (k + 1) = 2 * pow2 k"
  by (simp add: pow2_add)

lemma of_int_pow2_bounds:
  assumes "1 \<le> L" and "2 ^ nat (L - 1) \<le> a" and "a < 2 ^ nat L"
  shows "pow2 (L - 1) \<le> of_int a" and "of_int a < pow2 L"
proof -
  from assms(2) have "(of_int (2 ^ nat (L - 1)) :: rat) \<le> of_int a"
    by (simp only: of_int_le_iff)
  with assms(1) show "pow2 (L - 1) \<le> of_int a" by (simp add: pow2_def)
  from assms(3) have "(of_int a :: rat) < of_int (2 ^ nat L)"
    by (simp only: of_int_less_iff)
  with assms(1) show "of_int a < pow2 L" by (simp add: pow2_def)
qed

lemma binade_bounds:
  assumes "0 < x"
  shows "pow2 (binade x) \<le> x \<and> x < pow2 (binade x + 1)"
proof -
  obtain a b where q: "quotient_of x = (a, b)" by (cases "quotient_of x")
  then have b: "0 < b" and x: "x = of_int a / of_int b"
    by (simp_all add: quotient_of_denom_pos quotient_of_div)
  with assms have a: "0 < a"
    by (simp add: zero_less_divide_iff)
  define A where "A = bitlen a"
  define B where "B = bitlen b"
  from a b have A1: "1 \<le> A" and B1: "1 \<le> B"
    by (auto simp: A_def B_def bitlen_alt_def)
  from bitlen_bounds [OF a] have "2 ^ nat (A - 1) \<le> a" "a < 2 ^ nat A"
    by (simp_all add: A_def)
  then have aL: "pow2 (A - 1) \<le> of_int a" and aU: "of_int a < pow2 A"
    by (rule of_int_pow2_bounds [OF A1])+
  from bitlen_bounds [OF b] have "2 ^ nat (B - 1) \<le> b" "b < 2 ^ nat B"
    by (simp_all add: B_def)
  then have bL: "pow2 (B - 1) \<le> of_int b" and bU: "of_int b < pow2 B"
    by (rule of_int_pow2_bounds [OF B1])+
  have b0: "(0::rat) < of_int b" using b by simp
  have lower: "pow2 (A - B - 1) < x"
  proof -
    have "pow2 (A - B - 1) * of_int b < pow2 (A - B - 1) * pow2 B"
      using bU by simp
    also have "\<dots> = pow2 (A - 1)"
      by (simp add: pow2_add [symmetric])
    also have "\<dots> \<le> of_int a" by (rule aL)
    finally show ?thesis using b0 by (simp add: x pos_less_divide_eq)
  qed
  have upper: "x < pow2 (A - B + 1)"
  proof -
    have "of_int a < pow2 A" by (rule aU)
    also have "\<dots> = pow2 (A - B + 1) * pow2 (B - 1)"
      by (simp add: pow2_add [symmetric])
    also have "\<dots> \<le> pow2 (A - B + 1) * of_int b"
      using bL by simp
    finally show ?thesis using b0 by (simp add: x pos_divide_less_eq)
  qed
  show ?thesis
  proof (cases "pow2 (A - B) \<le> x")
    case True
    with q have "binade x = A - B"
      by (simp add: binade_def A_def B_def)
    with True upper show ?thesis by simp
  next
    case False
    with q have "binade x = A - B - 1"
      by (simp add: binade_def A_def B_def Let_def)
    with False lower show ?thesis by simp
  qed
qed

lemma round_half_even_near:
  "\<bar>of_int (round_half_even q) - q\<bar> \<le> 1 / 2"
proof -
  have "of_int \<lfloor>q\<rfloor> \<le> q" "q < of_int \<lfloor>q\<rfloor> + 1" by linarith+
  then show ?thesis
    by (auto simp: round_half_even_def Let_def abs_le_iff)
qed

lemma round_half_even_le:
  assumes "q \<le> of_int k"
  shows "round_half_even q \<le> k"
proof (cases "q = of_int k")
  case True
  then show ?thesis by (simp add: round_half_even_def)
next
  case False
  with assms have "q < of_int k" by simp
  then have "\<lfloor>q\<rfloor> < k" by (simp add: floor_less_iff)
  then show ?thesis by (simp add: round_half_even_def Let_def)
qed

lemma round_half_even_ge:
  assumes "of_int k \<le> q"
  shows "k \<le> round_half_even q"
proof -
  from assms have "k \<le> \<lfloor>q\<rfloor>" by (simp add: le_floor_iff)
  then show ?thesis by (simp add: round_half_even_def Let_def)
qed

lemma double_pos_eq:
  assumes "0 < x"
  shows "double x = of_int (round_half_even (x / pow2 (binade x - 52))) * pow2 (binade x - 52)"
  using assms by (simp add: double_def Let_def)

lemma double_minus: "double (- x) = - double x"
  by (simp add: double_def Let_def)

lemma scaled_bounds:
  assumes "0 < x"
  shows "pow2 52 \<le> x / pow2 (binade x - 52)" and "x / pow2 (binade x - 52) < pow2 53"
proof -
  from binade_bounds [OF assms]
  have l: "pow2 (binade x) \<le> x" and u: "x < pow2 (binade x + 1)" by simp_all
  have "pow2 (binade x) = pow2 52 * pow2 (binade x - 52)"
    by (simp add: pow2_add [symmetric])
  with l show "pow2 52 \<le> x / pow2 (binade x - 52)"
    by (simp add: pos_le_divide_eq)
  have "pow2 (binade x + 1) = pow2 53 * pow2 (binade x - 52)"
    by (simp add: pow2_add [symmetric] add.commute)
  with u show "x / pow2 (binade x - 52) < pow2 53"
    by (simp add: pos_divide_less_eq)
qed

lemma double_pos:
  assumes "0 < x"
  shows "0 < double x"
proof -
  have a: "(1::rat) \<le> pow2 52" using pow2_mono [of 0 52] by simp
  have "(1::rat) \<le> x / pow2 (binade x - 52)"
    by (rule order_trans [OF a scaled_bounds(1) [OF assms]])
  then have "(of_int 1 :: rat) \<le> x / pow2 (binade x - 52)"
    by (simp only: of_int_1)
  then have "1 \<le> round_half_even (x / pow2 (binade x - 52))"
    by (rule round_half_even_ge)
  then have "(0::rat) < of_int (round_half_even (x / pow2 (binade x - 52)))" by simp
  then show ?thesis
    by (simp add: double_pos_eq [OF assms])
qed

lemma double_pos_iff: "0 < double x \<longleftrightarrow> 0 < x"
proof (cases "0 < x")
  case True
  then show ?thesis by (simp add: double_pos)
next
  case False
  show ?thesis
  proof (cases "x = 0")
    case True
    then show ?thesis by (simp add: double_def)
  next
    case False
    with \<open>\<not> 0 < x\<close> have "0 < - x" by simp
    then have "0 < double (- x)" by (rule double_pos)
    with \<open>\<not> 0 < x\<close> show ?thesis by (simp add: double_minus)
  qed
qed

lemma double_nonneg: "0 \<le> x \<Longrightarrow> 0 \<le> double x"
  using double_pos [of x] by (cases "x = 0") (simp_all add: double_def less_imp_le)

lemma double_error:
  assumes "0 < x"
  shows "\<bar>double x - x\<bar> \<le> pow2 (binade x - 53)"
proof -
  define u where "u = pow2 (binade x - 52)"
  define A :: rat where "A = of_int (round_half_even (x / u))"
  have u: "0 < u" by (simp add: u_def)
  have "\<bar>A - x / u\<bar> \<le> 1 / 2"
    unfolding A_def by (rule round_half_even_near)
  then have h1: "\<bar>A - x / u\<bar> * u \<le> 1 / 2 * u"
    using u by (intro mult_right_mono) simp_all
  have "(A - x / u) * u = A * u - x"
    using u by (simp add: field_simps)
  then have h2: "\<bar>A - x / u\<bar> * u = \<bar>A * u - x\<bar>"
    using u abs_mult_pos [of u "A - x / u"] by simp
  have h3: "1 / 2 * u = pow2 (binade x - 53)"
  proof -
    have "pow2 (binade x - 53 + 1) = 2 * pow2 (binade x - 53)" by (rule pow2_Suc)
    then show ?thesis by (simp add: u_def)
  qed
  have h4: "double x = A * u"
    by (simp add: double_pos_eq [OF assms] u_def A_def)
  from h1 show ?thesis
    unfolding h2 h3 h4 .
qed

lemma double_le_int:
  assumes "0 \<le> x" and "x \<le> of_int M" and "of_int M < pow2 53"
  shows "double x \<le> of_int M"
proof (cases "x = 0")
  case True
  with assms show ?thesis by (simp add: double_def)
next
  case False
  with assms have x: "0 < x" by simp
  define e where "e = binade x"
  define u where "u = pow2 (e - 52)"
  define n where "n = nat (52 - e)"
  define R :: int where "R = round_half_even (x / u)"
  have u: "0 < u" by (simp add: u_def)
  from binade_bounds [OF x] have "pow2 e \<le> x" by (simp add: e_def)
  also note assms(2)
  also note assms(3)
  finally have "e < 53" by (simp add: pow2_less_iff)
  then have p: "pow2 (52 - e) = 2 ^ n" by (simp add: pow2_def n_def)
  have one: "pow2 (52 - e) * u = 1"
    by (simp add: u_def pow2_add [symmetric])
  have "x / u \<le> of_int M / u"
    using assms(2) u by (simp add: divide_right_mono)
  also have "of_int M / u = of_int M * (pow2 (52 - e) * u) / u"
    by (simp only: one mult_1_right)
  also have "\<dots> = of_int M * pow2 (52 - e)"
    using u by simp
  also have "\<dots> = of_int (M * 2 ^ n)"
    by (simp add: p)
  finally have "R \<le> M * 2 ^ n"
    unfolding R_def by (rule round_half_even_le)
  then have "(of_int R :: rat) \<le> of_int (M * 2 ^ n)"
    by (simp only: of_int_le_iff)
  then have "of_int R * u \<le> of_int (M * 2 ^ n) * u"
    using u by (intro mult_right_mono) simp_all
  also have "of_int (M * 2 ^ n) * u = of_int M * (pow2 (52 - e) * u)"
    by (simp add: p)
  also have "\<dots> = of_int M"
    by (simp only: one mult_1_right)
  finally show ?thesis
    by (simp add: double_pos_eq [OF x] u_def e_def R_def)
qed

lemma double_error_bound:
  assumes "0 \<le> x" and "x < pow2 k"
  shows "\<bar>double x - x\<bar> \<le> pow2 (k - 54)"
proof (cases "x = 0")
  case True
  then show ?thesis by (simp add: double_def less_imp_le)
next
  case False
  with assms have x: "0 < x" by simp
  from binade_bounds [OF x] assms(2) have "pow2 (binade x) < pow2 k" by simp
  then have "binade x - 53 \<le> k - 54" by (simp add: pow2_less_iff)
  then have "pow2 (binade x - 53) \<le> pow2 (k - 54)" by (rule pow2_mono)
  with double_error [OF x] show ?thesis by simp
qed

lemma weights_near:
  "\<bar>double (4 / 10) - 4 / 10\<bar> \<le> pow2 (- 54)" "\<bar>double (6 / 10) - 6 / 10\<bar> \<le> pow2 (- 54)"
  "\<bar>double (7 / 10) - 7 / 10\<bar> \<le> pow2 (- 54)" "\<bar>double (3 / 10) - 3 / 10\<bar> \<le> pow2 (- 54)"
  by code_simp+

lemma small_powers:
  "pow2 (- 54) * 100 \<le> 1 / 1000" "pow2 (- 47) \<le> 1 / 1000" "pow2 (- 46) \<le> 1 / 1000"
  "pow2 7 = 128" "pow2 8 = 256"
  by (simp_all add: pow2_def)

lemma weighted_term:
  assumes "0 \<le> c" and "c \<le> 100" and "0 \<le> w" and "w \<le> 1" and "\<bar>double w - w\<bar> \<le> pow2 (- 54)"
  shows "\<bar>times_double c (double w) - c * w\<bar> \<le> 2 / 1000"
    and "0 \<le> times_double c (double w)"
proof -
  have dw: "0 \<le> double w" using assms(3) by (rule double_nonneg)
  have "\<bar>c * double w - c * w\<bar> = c * \<bar>double w - w\<bar>"
    using assms(1) by (simp add: abs_mult right_diff_distrib [symmetric])
  also have "\<dots> \<le> 100 * pow2 (- 54)"
    using assms(1,2,5) by (intro mult_mono) simp_all
  finally have e1: "\<bar>c * double w - c * w\<bar> \<le> 1 / 1000"
    using small_powers(1) by simp
  have "c * w \<le> 100 * 1"
    using assms by (intro mult_mono) simp_all
  with e1 have "c * double w < 128" by linarith
  then have lt: "c * double w < pow2 7" by (simp add: small_powers)
  have nn: "0 \<le> c * double w" using assms(1) dw by simp
  from double_error_bound [OF nn lt] have "\<bar>double (c * double w) - c * double w\<bar> \<le> pow2 (- 47)"
    by simp
  with small_powers(2) have e2: "\<bar>double (c * double w) - c * double w\<bar> \<le> 1 / 1000"
    by simp
  from e1 e2 show "\<bar>times_double c (double w) - c * w\<bar> \<le> 2 / 1000"
    unfolding times_double_def by linarith
  from nn show "0 \<le> times_double c (double w)"
    by (simp add: times_double_def double_nonneg)
qed

lemma weighted_sum:
  assumes "0 \<le> c" "c \<le> 100" "0 \<le> d" "d \<le> 100"
    and "0 \<le> v" "v \<le> 1" "\<bar>double v - v\<bar> \<le> pow2 (- 54)"
    and "0 \<le> w" "w \<le> 1" "\<bar>double w - w\<bar> \<le> pow2 (- 54)"
  shows "\<bar>plus_double (times_double c (double v)) (times_double d (double w)) - (c * v + d * w)\<bar>
         \<le> 5 / 1000"
proof -
  define s where "s = times_double c (double v)"
  define t where "t = times_double d (double w)"
  from weighted_term [OF assms(1,2,5,6,7)] have s: "\<bar>s - c * v\<bar> \<le> 2 / 1000" "0 \<le> s"
    by (simp_all add: s_def)
  from weighted_term [OF assms(3,4,8,9,10)] have t: "\<bar>t - d * w\<bar> \<le> 2 / 1000" "0 \<le> t"
    by (simp_all add: t_def)
  have "c * v \<le> 100 * 1" using assms by (intro mult_mono) simp_all
  moreover have "d * w \<le> 100 * 1" using assms by (intro mult_mono) simp_all
  ultimately have "s + t < 256" using s(1) t(1) by linarith
  then have lt: "s + t < pow2 8" by (simp add: small_powers)
  have nn: "0 \<le> s + t" using s(2) t(2) by simp
  from double_error_bound [OF nn lt] small_powers(3)
  have "\<bar>double (s + t) - (s + t)\<bar> \<le> 1 / 1000" by simp
  with s(1) t(1) show ?thesis
    unfolding s_def [symmetric] t_def [symmetric] plus_double_def by linarith
qed

lemma floor_near_tenths:
  fixes y :: rat and n :: int
  assumes "\<bar>y - of_int n / 10\<bar> \<le> 5 / 1000" and "n mod 10 \<noteq> 5"
  shows "\<lfloor>y + 1 / 2\<rfloor> = \<lfloor>of_int n / 10 + 1 / 2 :: rat\<rfloor>"
proof -
  define k where "k = (n + 5) div 10"
  define r where "r = (n + 5) mod 10"
  have n: "n + 5 = 10 * k + r" by (simp add: k_def r_def)
  have "0 \<le> r" "r < 10" by (simp_all add: r_def)
  moreover from assms(2) have "r \<noteq> 0" unfolding r_def by presburger
  ultimately have r: "1 \<le> r" "r \<le> 9" by simp_all
  have "(of_int n :: rat) = 10 * of_int k + of_int r - 5"
    using n by (metis (no_types, opaque_lifting) add_diff_cancel_right' of_int_add of_int_mult
        of_int_numeral)
  then have e: "(of_int n :: rat) / 10 + 1 / 2 = of_int k + of_int r / 10"
    by (simp add: field_simps)
  from r have r': "(1::rat) \<le> of_int r" "(of_int r :: rat) \<le> 9" by simp_all
  have "\<lfloor>of_int n / 10 + 1 / 2 :: rat\<rfloor> = k"
    unfolding e using r' by (intro floor_unique) linarith+
  moreover have "\<lfloor>y + 1 / 2\<rfloor> = k"
    using assms(1) r' e by (intro floor_unique) linarith+
  ultimately show ?thesis by simp
qed


section \<open>Properties of the reconciler\<close>

lemma String_of_nat_digit:
  "String_of_nat 1 = ''1''" "String_of_nat 2 = ''2''" "String_of_nat 3 = ''3''"
  "String_of_nat 8 = ''8''" "String_of_nat 9 = ''9''"
  by code_simp+

lemma find_name_None:
  "GroupScore.name (primaryGroup p) \<notin> SimilarityMatch.name ` set rs \<Longrightarrow>
   List.find (\<lambda>r. SimilarityMatch.name r = GroupScore.name (primaryGroup p)) rs = None"
  by (force simp: find_None_iff)

lemma of_char_digit_char:
  assumes "d < 10"
  shows "(of_char (digit_char d) :: int) = 48 + int d"
proof -
  have "(of_char (char_of (48 + d)) :: nat) = (48 + d) mod 256"
    by (rule of_char_of)
  with assms have "(of_char (digit_char d) :: nat) = 48 + d"
    by (simp add: digit_char_def)
  then have "int (of_char (digit_char d)) = int (48 + d)"
    by (simp only:)
  then show ?thesis
    using of_nat_of_char [of "digit_char d", where 'a = int] by simp
qed

lemma is_digit_digit_char: "d < 10 \<Longrightarrow> is_digit (digit_char d)"
  by (simp add: is_digit_def of_char_digit_char)

lemma int_of_digits_snoc:
  "int_of_digits (ds @ [c]) = 10 * int_of_digits ds + (of_char c - 48)"
  by (simp add: int_of_digits_def)

lemma String_of_nat_digits:
  "String_of_nat n \<noteq> [] \<and> list_all is_digit (String_of_nat n)
   \<and> int_of_digits (String_of_nat n) = int n
   \<and> (0 < n \<longrightarrow> hd (String_of_nat n) \<noteq> CHR ''0'')"
proof (induction n rule: String_of_nat.induct)
  case (1 n)
  show ?case
  proof (cases "n < 10")
    case True
    then have s: "String_of_nat n = [digit_char n]"
      by (simp add: String_of_nat.simps)
    have "(of_char (digit_char n) :: int) \<noteq> of_char (CHR ''0'')" if "0 < n"
      using that True by (simp add: of_char_digit_char)
    then have "0 < n \<longrightarrow> digit_char n \<noteq> CHR ''0''" by auto
    with True show ?thesis
      by (simp add: s is_digit_digit_char of_char_digit_char int_of_digits_def)
  next
    case False
    then have s: "String_of_nat n = String_of_nat (n div 10) @ [digit_char (n mod 10)]"
      by (simp add: String_of_nat.simps)
    from False have pos: "0 < n div 10" by simp
    have m: "n mod 10 < 10" by simp
    from "1.IH" [OF False] pos
    have ih: "String_of_nat (n div 10) \<noteq> []" "list_all is_digit (String_of_nat (n div 10))"
        "int_of_digits (String_of_nat (n div 10)) = int (n div 10)"
        "hd (String_of_nat (n div 10)) \<noteq> CHR ''0''"
      by simp_all
    have "10 * int (n div 10) + int (n mod 10) = int n"
      by (simp add: zdiv_int zmod_int)
    with ih show ?thesis
      by (simp add: s int_of_digits_snoc of_char_digit_char [OF m] is_digit_digit_char [OF m])
  qed
qed

lemma String_of_nat_0: "String_of_nat 0 = ''0''"
  by code_simp

lemma String_of_nat_decimal: "is_decimal_of (String_of_nat n) n"
  using String_of_nat_digits [of n] String_of_nat_0
  by (cases "n = 0") (simp_all add: is_decimal_of_def)


lemma blend_73:
  fixes i j :: int
  assumes "0 \<le> i" "i \<le> 100" "0 \<le> j" "j \<le> 100" and "(7 * i + 3 * j) mod 10 \<noteq> 5"
  shows "\<lfloor>double (double (of_int i * double (7 / 10)) + double (of_int j * double (3 / 10))) + 1 / 2\<rfloor>
         = \<lfloor>of_int i * (7 / 10) + of_int j * (3 / 10) + 1 / 2 :: rat\<rfloor>"
proof -
  have e: "(of_int i :: rat) * (7 / 10) + of_int j * (3 / 10) = of_int (7 * i + 3 * j) / 10"
    by simp
  have "\<bar>plus_double (times_double (of_int i) (double (7 / 10)))
                    (times_double (of_int j) (double (3 / 10)))
                 - of_int (7 * i + 3 * j) / 10\<bar> \<le> 5 / 1000"
    unfolding e [symmetric] using assms weights_near by (intro weighted_sum) simp_all
  with assms(5) show ?thesis
    unfolding e plus_double_def times_double_def by (rule floor_near_tenths [rotated])
qed

text \<open>
  C1. With an empty list of similarity results the reconciler returns the primary group
  of the pattern result unchanged (name, confidence, reasoning), with the source
  \<open>pattern-based\<close>.
\<close>

theorem reconcile_empty_similarity:
  "determineFinalRecommendation p [] =
     \<lparr>group = GroupScore.name (primaryGroup p),
      confidence = GroupScore.confidence (primaryGroup p),
      source = ''pattern-based'',
      reasoning = GroupScore.reasoning (primaryGroup p)\<rparr>"
  by (simp add: determineFinalRecommendation_def)




text \<open>
  C3, as stated, at a concrete input. The claim gives the confidence as the rounded
  value of \<open>pattern * 0.7 + matching * 0.3\<close>. For the pattern confidence 68 and a
  matching entry of confidence 33 (one neighbour of three) that value is 57.5, which
  rounds to 58; the doubles of the route give 57.49999999999999, and the reconciler
  returns 57.
\<close>

theorem reconcile_partial_support_counterexample:
  "FinalRecommendation.confidence
     (determineFinalRecommendation
        \<lparr>primaryGroup = \<lparr>GroupScore.name = ''Desktop Support'', confidence = 68,
                           reasoning = ''why''\<rparr>,
         alternativeGroups = []\<rparr>
        [\<lparr>SimilarityMatch.name = ''Email & Collaboration'', confidence = 67, count = 2\<rparr>,
         \<lparr>SimilarityMatch.name = ''Desktop Support'', confidence = 33, count = 1\<rparr>]) = 57
   \<and> (of_int \<lfloor>68 * (7 / 10) + 33 * (3 / 10) + 1 / 2 :: rat\<rfloor> :: rat) = 58"
  by code_simp

text \<open>
  C3, amended. When the primary group of the pattern result does not have the name of
  the first similarity result but has the name of an entry \<open>m\<close> further down the list,
  the reconciler returns the primary group with the source \<open>pattern-weighted\<close>, a
  reasoning that cites the count of the matching entry as a decimal numeral, and the
  confidence \<open>pattern * 0.7 + matching * 0.3\<close> as the doubles give it, rounded to the
  nearest integer, a half going up. The matching entry is the first one with that name,
  which is \<open>m\<close> itself when the names of the list are distinct. When both confidences
  are integers between 0 and 100 and the exact value of \<open>pattern * 0.7 + matching * 0.3\<close>
  is not half an odd integer, the confidence is the rounded exact value.
\<close>

theorem reconcile_partial_support:
  assumes "GroupScore.name (primaryGroup p) \<noteq> SimilarityMatch.name r0"
    and "m \<in> set rs"
    and "SimilarityMatch.name m = GroupScore.name (primaryGroup p)"
  shows "\<exists>m' ds. List.find (\<lambda>r. SimilarityMatch.name r = GroupScore.name (primaryGroup p)) rs = Some m'
      \<and> (distinct (map SimilarityMatch.name rs) \<longrightarrow> m' = m)
      \<and> is_decimal_of ds (SimilarityMatch.count m')
      \<and> determineFinalRecommendation p (r0 # rs) =
          \<lparr>group = GroupScore.name (primaryGroup p),
           confidence = of_int
             \<lfloor>double (double (GroupScore.confidence (primaryGroup p) * double (7 / 10))
                      + double (SimilarityMatch.confidence m' * double (3 / 10))) + 1 / 2\<rfloor>,
           source = ''pattern-weighted'',
           reasoning = ''Pattern analysis suggests this group, with some support from historical data (''
             @ ds @ '' similar tickets).''\<rparr>
      \<and> (\<forall>i j. GroupScore.confidence (primaryGroup p) = of_int i
               \<and> SimilarityMatch.confidence m' = of_int j
               \<and> 0 \<le> i \<and> i \<le> 100 \<and> 0 \<le> j \<and> j \<le> 100 \<and> (7 * i + 3 * j) mod 10 \<noteq> 5 \<longrightarrow>
             FinalRecommendation.confidence (determineFinalRecommendation p (r0 # rs))
               = of_int \<lfloor>GroupScore.confidence (primaryGroup p) * (7 / 10)
                          + SimilarityMatch.confidence m' * (3 / 10) + 1 / 2\<rfloor>)"
proof -
  let ?P = "\<lambda>r. SimilarityMatch.name r = GroupScore.name (primaryGroup p)"
  from assms(2,3) obtain m' where f: "List.find ?P rs = Some m'"
    by (cases "List.find ?P rs") (auto simp: find_None_iff)
  then obtain i where i: "i < length rs" "?P (rs ! i)" "m' = rs ! i"
    by (auto simp: find_Some_iff)
  have d: "m' = m" if "distinct (map SimilarityMatch.name rs)"
  proof -
    from assms(2) obtain j where j: "j < length rs" "rs ! j = m"
      by (auto simp: in_set_conv_nth)
    with i assms(3) have "map SimilarityMatch.name rs ! i = map SimilarityMatch.name rs ! j"
      by simp
    with that i(1) j(1) have "i = j"
      using nth_eq_iff_index_eq [of "map SimilarityMatch.name rs" i j] by simp
    with i j show ?thesis by simp
  qed
  have r: "determineFinalRecommendation p (r0 # rs) =
          \<lparr>group = GroupScore.name (primaryGroup p),
           confidence = of_int
             \<lfloor>double (double (GroupScore.confidence (primaryGroup p) * double (7 / 10))
                      + double (SimilarityMatch.confidence m' * double (3 / 10))) + 1 / 2\<rfloor>,
           source = ''pattern-weighted'',
           reasoning = ''Pattern analysis suggests this group, with some support from historical data (''
             @ String_of_nat (SimilarityMatch.count m') @ '' similar tickets).''\<rparr>"
    using f assms(1)
    by (simp add: determineFinalRecommendation_def Math_round_def plus_double_def
          times_double_def)
  have e: "FinalRecommendation.confidence (determineFinalRecommendation p (r0 # rs))
               = of_int \<lfloor>GroupScore.confidence (primaryGroup p) * (7 / 10)
                          + SimilarityMatch.confidence m' * (3 / 10) + 1 / 2\<rfloor>"
    if "GroupScore.confidence (primaryGroup p) = of_int a"
      "SimilarityMatch.confidence m' = of_int b" "0 \<le> a" "a \<le> 100" "0 \<le> b" "b \<le> 100"
      "(7 * a + 3 * b) mod 10 \<noteq> 5"
    for a b
    unfolding r using blend_73 [OF that(3-7)] by (simp only: that(1,2) FinalRecommendation.simps)
  from f d r e String_of_nat_decimal [of "SimilarityMatch.count m'"] show ?thesis
    by blast
qed

theorem reconcile_partial_support_witness:
  "determineFinalRecommendation
     \<lparr>primaryGroup = \<lparr>GroupScore.name = ''Desktop Support'', confidence = 68,
                        reasoning = ''why''\<rparr>,
      alternativeGroups = []\<rparr>
     [\<lparr>SimilarityMatch.name = ''Email & Collaboration'', confidence = 67, count = 2\<rparr>,
      \<lparr>SimilarityMatch.name = ''Desktop Support'', confidence = 33, count = 1\<rparr>] =
     \<lparr>group = ''Desktop Support'', confidence = 57, source = ''pattern-weighted'',
      reasoning = ''Pattern analysis suggests this group, with some support from historical data (1 similar tickets).''\<rparr>
   \<and> determineFinalRecommendation
     \<lparr>primaryGroup = \<lparr>GroupScore.name = ''Desktop Support'', confidence = 61,
                        reasoning = ''why''\<rparr>,
      alternativeGroups = []\<rparr>
     [\<lparr>SimilarityMatch.name = ''Email & Collaboration'', confidence = 75, count = 15\<rparr>,
      \<lparr>SimilarityMatch.name = ''Desktop Support'', confidence = 40, count = 11\<rparr>] =
     \<lparr>group = ''Desktop Support'', confidence = 55, source = ''pattern-weighted'',
      reasoning = ''Pattern analysis suggests this group, with some support from historical data (11 similar tickets).''\<rparr>
   \<and> (of_int \<lfloor>61 * (7 / 10) + 40 * (3 / 10) + 1 / 2 :: rat\<rfloor> :: rat) = 55
   \<and> double 9007199254740993 = 9007199254740992
   \<and> double 9007199254740995 = 9007199254740996"
proof -
  let ?p = "\<lparr>primaryGroup = \<lparr>GroupScore.name = ''Desktop Support'', confidence = 61,
                        reasoning = ''why''\<rparr>,
      alternativeGroups = []\<rparr>"
  let ?r = "\<lparr>SimilarityMatch.name = ''Email & Collaboration'', confidence = 75, count = 15\<rparr>"
  let ?m = "\<lparr>SimilarityMatch.name = ''Desktop Support'', confidence = 40, count = 11\<rparr>"
  have ties: "double 9007199254740993 = 9007199254740992
      \<and> double 9007199254740995 = 9007199254740996"
    by code_simp
  have a: "determineFinalRecommendation
     \<lparr>primaryGroup = \<lparr>GroupScore.name = ''Desktop Support'', confidence = 68,
                        reasoning = ''why''\<rparr>,
      alternativeGroups = []\<rparr>
     [\<lparr>SimilarityMatch.name = ''Email & Collaboration'', confidence = 67, count = 2\<rparr>,
      \<lparr>SimilarityMatch.name = ''Desktop Support'', confidence = 33, count = 1\<rparr>] =
     \<lparr>group = ''Desktop Support'', confidence = 57, source = ''pattern-weighted'',
      reasoning = ''Pattern analysis suggests this group, with some support from historical data (1 similar tickets).''\<rparr>"
    by code_simp
  have b: "determineFinalRecommendation ?p [?r, ?m] =
     \<lparr>group = ''Desktop Support'', confidence = 55, source = ''pattern-weighted'',
      reasoning = ''Pattern analysis suggests this group, with some support from historical data (11 similar tickets).''\<rparr>"
    by code_simp
  have h1: "GroupScore.name (primaryGroup ?p) \<noteq> SimilarityMatch.name ?r" by simp
  have h2: "?m \<in> set [?m]" by simp
  have h3: "SimilarityMatch.name ?m = GroupScore.name (primaryGroup ?p)" by simp
  from reconcile_partial_support [OF h1 h2 h3]
  obtain m' where f: "List.find (\<lambda>r. SimilarityMatch.name r = GroupScore.name (primaryGroup ?p)) [?m]
        = Some m'"
    and e: "\<forall>i j. GroupScore.confidence (primaryGroup ?p) = of_int i
               \<and> SimilarityMatch.confidence m' = of_int j
               \<and> 0 \<le> i \<and> i \<le> 100 \<and> 0 \<le> j \<and> j \<le> 100 \<and> (7 * i + 3 * j) mod 10 \<noteq> 5 \<longrightarrow>
             FinalRecommendation.confidence (determineFinalRecommendation ?p [?r, ?m])
               = of_int \<lfloor>GroupScore.confidence (primaryGroup ?p) * (7 / 10)
                          + SimilarityMatch.confidence m' * (3 / 10) + 1 / 2\<rfloor>"
    by blast
  from f have m': "m' = ?m" by simp
  from e [rule_format, of 61 40]
  have "(of_int \<lfloor>61 * (7 / 10) + 40 * (3 / 10) + 1 / 2 :: rat\<rfloor> :: rat) = 55"
    unfolding m' b by simp
  with a b ties show ?thesis by simp
qed

text \<open>
  C4. When no similarity result has the name of the primary group of the pattern result:
  if the confidence of the first similarity result is above 70 the reconciler returns
  that result's group and confidence unchanged with the source \<open>history-weighted\<close>;
  otherwise it returns the primary group with the confidence \<open>min pattern 70\<close>, the
  source \<open>pattern-based\<close>, and the pattern's reasoning followed by the note that
  historical data suggests different groups.
\<close>

theorem reconcile_full_disagreement:
  assumes "GroupScore.name (primaryGroup p) \<notin> SimilarityMatch.name ` set (r0 # rs)"
  shows "determineFinalRecommendation p (r0 # rs) =
     (if SimilarityMatch.confidence r0 > 70 then
        \<lparr>group = SimilarityMatch.name r0,
         confidence = SimilarityMatch.confidence r0,
         source = ''history-weighted'',
         reasoning = ''Based primarily on '' @ String_of_nat (SimilarityMatch.count r0)
           @ '' similar historical tickets that were assigned to this group.''\<rparr>
      else
        \<lparr>group = GroupScore.name (primaryGroup p),
         confidence = min (GroupScore.confidence (primaryGroup p)) 70,
         source = ''pattern-based'',
         reasoning = GroupScore.reasoning (primaryGroup p)
           @ '' (Note: Historical data suggests different groups.)''\<rparr>)"
proof -
  from assms have n: "GroupScore.name (primaryGroup p) \<noteq> SimilarityMatch.name r0"
    by auto
  from assms have
    "List.find (\<lambda>r. SimilarityMatch.name r = GroupScore.name (primaryGroup p)) (r0 # rs) = None"
    by (intro find_name_None)
  with n show ?thesis
    by (simp add: determineFinalRecommendation_def Math_min_def min_def)
qed

theorem reconcile_full_disagreement_witness:
  "determineFinalRecommendation
     \<lparr>primaryGroup = \<lparr>GroupScore.name = ''Application Support'', confidence = 50,
                        reasoning = ''why''\<rparr>,
      alternativeGroups = []\<rparr>
     [\<lparr>SimilarityMatch.name = ''Database Administration'', confidence = 85, count = 8\<rparr>] =
     \<lparr>group = ''Database Administration'', confidence = 85, source = ''history-weighted'',
      reasoning = ''Based primarily on 8 similar historical tickets that were assigned to this group.''\<rparr>
   \<and> determineFinalRecommendation
     \<lparr>primaryGroup = \<lparr>GroupScore.name = ''Server Operations'', confidence = 65,
                        reasoning = ''why''\<rparr>,
      alternativeGroups = []\<rparr>
     [\<lparr>SimilarityMatch.name = ''Security'', confidence = 60, count = 3\<rparr>] =
     \<lparr>group = ''Server Operations'', confidence = 65, source = ''pattern-based'',
      reasoning = ''why (Note: Historical data suggests different groups.)''\<rparr>"
  using reconcile_full_disagreement [of
      "\<lparr>primaryGroup = \<lparr>GroupScore.name = ''Application Support'', confidence = 50,
                         reasoning = ''why''\<rparr>, alternativeGroups = []\<rparr>"
      "\<lparr>SimilarityMatch.name = ''Database Administration'', confidence = 85, count = 8\<rparr>" "[]"]
    reconcile_full_disagreement [of
      "\<lparr>primaryGroup = \<lparr>GroupScore.name = ''Server Operations'', confidence = 65,
                         reasoning = ''why''\<rparr>, alternativeGroups = []\<rparr>"
      "\<lparr>SimilarityMatch.name = ''Security'', confidence = 60, count = 3\<rparr>" "[]"]
  by (simp add: String_of_nat_digit)

text \<open>
  C9. The group of the final recommendation is the name of the pattern result's primary
  group or the name of one of the similarity results: no other group is ever returned.
\<close>

theorem reconcile_group_from_inputs:
  "group (determineFinalRecommendation p rs) = GroupScore.name (primaryGroup p)
   \<or> group (determineFinalRecommendation p rs) \<in> SimilarityMatch.name ` set rs"
  by (cases rs) (auto simp: determineFinalRecommendation_def Let_def split: option.splits)

section \<open>Properties of the pattern classifier\<close>

text \<open>
  C7, as stated, at a concrete reply. The claim lets the classifier fail with the
  malformed-response error exactly when the reply does not parse as the expected shape.
  The reply \<^verbatim>\<open>{}\<close> is valid JSON and not of that shape, and the classifier returns
  the empty object: the route checks the syntax of the reply, never its shape.
\<close>

theorem pattern_unshaped_value_counterexample:
  "fst (classifyWithOpenAI (JSON_parse_table [(''{}'', JObject [])]) (chat_answers ''{}'') 0
          ''VPN down'' ''Cannot connect'') = Inr (JObject [])
   \<and> as_ClassificationResult (JObject []) = None"
  by (simp add: classifyWithOpenAI_def chat_answers_def JSON_parse_table_def
        as_ClassificationResult_def)

text \<open>
  C7, amended. The classifier calls the provider exactly once, whatever the outcome, so
  nothing is retried. When the call throws, the classifier throws the same value. When
  the response has no choice it throws a \<open>TypeError\<close>; when the content of the first
  choice is \<^verbatim>\<open>null\<close> or empty it throws \<open>No response from OpenAI\<close>. Otherwise it throws
  \<open>Failed to parse classification response\<close> when the content is not valid JSON, and
  returns the parsed value as it is when the content is valid JSON, of whatever shape.
\<close>

theorem classifyWithOpenAI_outcomes:
  "snd (classifyWithOpenAI JSON_parse chat calls subject description) = Suc calls
   \<and> (chat calls (chat_request subject description) = Throws e \<longrightarrow>
        fst (classifyWithOpenAI JSON_parse chat calls subject description) = Inl e)
   \<and> (chat calls (chat_request subject description) = Resolves \<lparr>choices = []\<rparr> \<longrightarrow>
        (\<exists>m. fst (classifyWithOpenAI JSON_parse chat calls subject description)
              = Inl (TypeError m)))
   \<and> (chat calls (chat_request subject description) = Resolves \<lparr>choices = content # rest\<rparr>
        \<and> (content = None \<or> content = Some []) \<longrightarrow>
        fst (classifyWithOpenAI JSON_parse chat calls subject description)
          = Inl (Error ''No response from OpenAI''))
   \<and> (chat calls (chat_request subject description) = Resolves \<lparr>choices = Some reply # rest\<rparr>
        \<and> reply \<noteq> [] \<longrightarrow>
        fst (classifyWithOpenAI JSON_parse chat calls subject description)
          = (case JSON_parse reply of
               None \<Rightarrow> Inl (Error ''Failed to parse classification response'')
             | Some parsed \<Rightarrow> Inr parsed))"
  by (auto simp: classifyWithOpenAI_def split: awaited.splits list.splits option.splits)

theorem classifyWithOpenAI_outcomes_witness:
  "fst (classifyWithOpenAI (JSON_parse_table []) chat_fails 0 ''VPN down'' ''Cannot connect'')
     = Inl (ProviderError ''429 You exceeded your current quota'')
   \<and> fst (classifyWithOpenAI (JSON_parse_table []) (chat_answers ''Sorry, I cannot help.'') 0
            ''VPN down'' ''Cannot connect'')
     = Inl (Error ''Failed to parse classification response'')
   \<and> fst (classifyWithOpenAI (JSON_parse_table [(three_alternatives_text, three_alternatives)])
            (chat_answers three_alternatives_text) 0 ''VPN down'' ''Cannot connect'')
     = Inr three_alternatives"
  using classifyWithOpenAI_outcomes [where JSON_parse = "JSON_parse_table []"
      and chat = chat_fails and calls = 0 and subject = "''VPN down''"
      and description = "''Cannot connect''"
      and e = "ProviderError ''429 You exceeded your current quota''"]
    classifyWithOpenAI_outcomes [where JSON_parse = "JSON_parse_table []"
      and chat = "chat_answers ''Sorry, I cannot help.''" and calls = 0
      and subject = "''VPN down''" and description = "''Cannot connect''"
      and reply = "''Sorry, I cannot help.''" and rest = "[]"]
    classifyWithOpenAI_outcomes [where
      JSON_parse = "JSON_parse_table [(three_alternatives_text, three_alternatives)]"
      and chat = "chat_answers three_alternatives_text" and calls = 0
      and subject = "''VPN down''" and description = "''Cannot connect''"
      and reply = three_alternatives_text and rest = "[]"]
  by (simp add: chat_fails_def chat_answers_def JSON_parse_table_def three_alternatives_text_def)

text \<open>
  C8, as stated, at a concrete reply. The reply of the provider has three alternative
  groups, the first with the name of the primary group; the classifier returns it
  unchanged, with more than two alternatives and the primary name among them.
\<close>

theorem pattern_alternatives_counterexample:
  "fst (classifyWithOpenAI (JSON_parse_table [(three_alternatives_text, three_alternatives)])
          (chat_answers three_alternatives_text) 0 ''VPN down'' ''Cannot connect'')
     = Inr three_alternatives
   \<and> as_ClassificationResult three_alternatives =
       Some \<lparr>primaryGroup = \<lparr>GroupScore.name = ''Security'', confidence = 90, reasoning = ''r''\<rparr>,
             alternativeGroups =
               [\<lparr>GroupScore.name = ''Security'', confidence = 50, reasoning = ''a''\<rparr>,
                \<lparr>GroupScore.name = ''Desktop Support'', confidence = 40, reasoning = ''b''\<rparr>,
                \<lparr>GroupScore.name = ''Network Operations'', confidence = 30,
                  reasoning = ''c''\<rparr>]\<rparr>
   \<and> \<not> (length (alternativeGroups (the (as_ClassificationResult three_alternatives))) \<le> 2)
   \<and> GroupScore.name (primaryGroup (the (as_ClassificationResult three_alternatives)))
       \<in> GroupScore.name ` set (alternativeGroups (the (as_ClassificationResult three_alternatives)))"
proof -
  have d: "as_ClassificationResult three_alternatives =
       Some \<lparr>primaryGroup = \<lparr>GroupScore.name = ''Security'', confidence = 90, reasoning = ''r''\<rparr>,
             alternativeGroups =
               [\<lparr>GroupScore.name = ''Security'', confidence = 50, reasoning = ''a''\<rparr>,
                \<lparr>GroupScore.name = ''Desktop Support'', confidence = 40, reasoning = ''b''\<rparr>,
                \<lparr>GroupScore.name = ''Network Operations'', confidence = 30,
                  reasoning = ''c''\<rparr>]\<rparr>"
    by (simp add: as_ClassificationResult_def three_alternatives_def group_object_def
          as_GroupScore_def)
  have c: "fst (classifyWithOpenAI (JSON_parse_table [(three_alternatives_text, three_alternatives)])
          (chat_answers three_alternatives_text) 0 ''VPN down'' ''Cannot connect'')
     = Inr three_alternatives"
    by (simp add: classifyWithOpenAI_def chat_answers_def JSON_parse_table_def
          three_alternatives_text_def)
  show ?thesis
    unfolding d using c d by simp
qed

text \<open>
  C8, amended. Every value the classifier returns is the parsed content of the first
  choice of the provider's response, unchanged: the length of \<open>alternativeGroups\<close> and
  the names in it are the provider's. The prompt asks for two alternatives; the route
  enforces neither the bound nor the absence of the primary name.
\<close>

theorem classifyWithOpenAI_returns_parsed_text:
  assumes "fst (classifyWithOpenAI JSON_parse chat calls subject description) = Inr parsed"
  shows "\<exists>reply rest. chat calls (chat_request subject description)
                        = Resolves \<lparr>choices = Some reply # rest\<rparr>
                    \<and> reply \<noteq> [] \<and> JSON_parse reply = Some parsed"
proof (cases "chat calls (chat_request subject description)")
  case (Throws e)
  with assms show ?thesis by (simp add: classifyWithOpenAI_def)
next
  case (Resolves response)
  with assms obtain t rest where "choices response = Some t # rest" "t \<noteq> []"
      "JSON_parse t = Some parsed"
    by (auto simp: classifyWithOpenAI_def split: list.splits option.splits if_splits)
  moreover have "response = \<lparr>choices = choices response\<rparr>" by simp
  ultimately show ?thesis using Resolves by metis
qed

theorem classifyWithOpenAI_returns_parsed_text_witness:
  "\<exists>reply rest. chat_answers three_alternatives_text 0 (chat_request ''VPN down'' ''Cannot connect'')
                   = Resolves \<lparr>choices = Some reply # rest\<rparr>
               \<and> reply \<noteq> []
               \<and> JSON_parse_table [(three_alternatives_text, three_alternatives)] reply
                   = Some three_alternatives"
proof -
  have "fst (classifyWithOpenAI (JSON_parse_table [(three_alternatives_text, three_alternatives)])
          (chat_answers three_alternatives_text) 0 ''VPN down'' ''Cannot connect'')
     = Inr three_alternatives"
    by (simp add: classifyWithOpenAI_def chat_answers_def JSON_parse_table_def
          three_alternatives_text_def)
  then show ?thesis by (rule classifyWithOpenAI_returns_parsed_text)
qed


section \<open>Properties of the similarity classifier\<close>

lemma failure_simps [simp]:
  "SimilarityOutcome.success (failure r) = False"
  "SimilarityOutcome.error (failure r) = Some r"
  "results (failure r) = []"
  "similarTickets (failure r) = []"
  by (simp_all add: failure_def)

lemma query_similar_tickets_cases:
  "(SimilarityOutcome.success (query_similar_tickets supabase embedding)
      \<and> (\<exists>r tickets. match_tickets supabase embedding 0.5 5 = Resolves r
            \<and> PostgrestResponse.error r = None \<and> data r = Some tickets))
   \<or> (query_similar_tickets supabase embedding = failure ''Vector similarity search failed''
      \<and> (case match_tickets supabase embedding 0.5 5 of
            Throws e \<Rightarrow> True
          | Resolves r \<Rightarrow> PostgrestResponse.error r = None \<and> data r = None))
   \<or> (\<exists>r err. match_tickets supabase embedding 0.5 5 = Resolves r
         \<and> PostgrestResponse.error r = Some err
         \<and> query_similar_tickets supabase embedding = failure (PostgrestError.message err))"
  by (auto simp: query_similar_tickets_def split: awaited.splits option.splits prod.splits)

lemma try_outcome:
  assumes "findSimilarTickets_try supabase embeddings subject description = Inr outcome"
  shows "(\<exists>reason. outcome = failure reason \<and> reason \<noteq> [])
       \<or> (\<exists>embedding.
             generateEmbedding embeddings (trim (subject @ '' '' @ description)) = Inr embedding
             \<and> outcome = query_similar_tickets supabase embedding
             \<and> \<not> store_unreachable supabase \<and> \<not> store_empty supabase
             \<and> \<not> creation_throws (check_vector_extension supabase)
                   (create_vector_extension supabase)
             \<and> \<not> creation_throws (check_embedding_column supabase)
                   (add_embedding_column supabase)
             \<and> \<not> no_embedded_rows supabase)"
  using assms
  unfolding findSimilarTickets_try_def store_unreachable_def store_empty_def
    creation_throws_def no_embedded_rows_def
  by (auto split: awaited.splits if_splits sum.splits)

lemma query_failure_reason:
  assumes "generateEmbedding embeddings (trim (subject @ '' '' @ description)) = Inr embedding"
    and "\<not> SimilarityOutcome.success (query_similar_tickets supabase embedding)"
  shows "\<exists>reason. query_similar_tickets supabase embedding = failure reason
           \<and> (reason = [] \<longrightarrow>
                search_error_message supabase embeddings subject description = Some [])"
  using query_similar_tickets_cases [of supabase embedding] assms
  by (auto simp: search_error_message_def)

lemma query_search_fails:
  assumes "generateEmbedding embeddings (trim (subject @ '' '' @ description)) = Inr embedding"
    and "search_fails supabase embeddings subject description"
  shows "\<not> SimilarityOutcome.success (query_similar_tickets supabase embedding)"
  using assms
  by (auto simp: search_fails_def query_similar_tickets_def
        split: awaited.splits option.splits)

text \<open>
  C5, as stated, at two concrete stores. In the first, \<^verbatim>\<open>match_tickets\<close> resolves
  with an error whose message is empty: the classifier passes the message on, and the
  reason it returns is the empty string. In the second, the check of the extension
  reports an error and the creation call resolves with an error too, without throwing:
  the classifier reads no result of the creation call, goes on, and returns a success.
\<close>

theorem similarity_failure_counterexample:
  "findSimilarTickets (ready_store (rejected [])) embeddings_answer ''VPN down'' ''Cannot connect''
   = Inr \<lparr>SimilarityOutcome.success = False, error = Some [], results = [], similarTickets = []\<rparr>
   \<and> findSimilarTickets (store_without_extension (resolved (Some [neighbour ''Security''])))
       embeddings_answer ''VPN down'' ''Cannot connect''
   = Inr \<lparr>SimilarityOutcome.success = True, error = None,
          results = [\<lparr>GroupConfidence.name = ''Security'', confidence = Num 100,
                      count = Count 1\<rparr>],
          similarTickets = [neighbour ''Security'']\<rparr>"
  by code_simp

text \<open>
  C5, amended. The classifier never throws: it always returns a value. A returned
  failure has no results, no similar tickets and a reason, and the reason is non-empty
  unless it is the empty message of the error \<^verbatim>\<open>match_tickets\<close> resolved with. And the
  classifier returns a failure on every failure of a collaborator: the store unreachable
  or empty, a schema check that throws, a schema check reporting an error followed by a
  creation call that throws, no embedded row, a failing embedding, a failing search.
  (What follows a creation call that resolves with an error is not part of the
  statement.)
\<close>

theorem findSimilarTickets_degrades:
  "\<exists>outcome. findSimilarTickets supabase embeddings subject description = Inr outcome
     \<and> (\<not> SimilarityOutcome.success outcome \<longrightarrow>
          results outcome = [] \<and> similarTickets outcome = []
          \<and> (\<exists>reason. SimilarityOutcome.error outcome = Some reason
                \<and> (reason = [] \<longrightarrow>
                     search_error_message supabase embeddings subject description = Some [])))
     \<and> (collaborator_failure supabase embeddings subject description \<longrightarrow>
          \<not> SimilarityOutcome.success outcome)"
proof (cases "findSimilarTickets_try supabase embeddings subject description")
  case (Inl e)
  then show ?thesis by (simp add: findSimilarTickets_def)
next
  case (Inr outcome)
  then have f: "findSimilarTickets supabase embeddings subject description = Inr outcome"
    by (simp add: findSimilarTickets_def)
  from try_outcome [OF Inr] show ?thesis
  proof (elim disjE exE conjE)
    fix reason assume "outcome = failure reason" "reason \<noteq> []"
    with f show ?thesis by simp
  next
    fix embedding
    assume g: "generateEmbedding embeddings (trim (subject @ '' '' @ description)) = Inr embedding"
      and o: "outcome = query_similar_tickets supabase embedding"
      and n: "\<not> store_unreachable supabase" "\<not> store_empty supabase"
        "\<not> creation_throws (check_vector_extension supabase) (create_vector_extension supabase)"
        "\<not> creation_throws (check_embedding_column supabase) (add_embedding_column supabase)"
        "\<not> no_embedded_rows supabase"
    have shape: "results outcome = [] \<and> similarTickets outcome = []
          \<and> (\<exists>reason. SimilarityOutcome.error outcome = Some reason
                \<and> (reason = [] \<longrightarrow>
                     search_error_message supabase embeddings subject description = Some []))"
      if "\<not> SimilarityOutcome.success outcome"
    proof -
      from query_failure_reason [OF g] that o obtain reason where
        "outcome = failure reason"
        "reason = [] \<longrightarrow> search_error_message supabase embeddings subject description = Some []"
        by auto
      then show ?thesis by simp
    qed
    have fails: "\<not> SimilarityOutcome.success outcome"
      if "collaborator_failure supabase embeddings subject description"
    proof -
      from that n g have "search_fails supabase embeddings subject description"
        by (simp add: collaborator_failure_def embedding_fails_def)
      from query_search_fails [OF g this] o show ?thesis by simp
    qed
    from f shape fails show ?thesis by blast
  qed
qed

theorem findSimilarTickets_degrades_witness:
  "findSimilarTickets (ready_store (Throws (ProviderError ''fetch failed''))) embeddings_answer
     ''VPN down'' ''Cannot connect''
   = Inr \<lparr>SimilarityOutcome.success = False, error = Some ''Vector similarity search failed'', results = [],
          similarTickets = []\<rparr>
   \<and> collaborator_failure (ready_store (Throws (ProviderError ''fetch failed'')))
        embeddings_answer ''VPN down'' ''Cannot connect''"
proof -
  have c: "collaborator_failure (ready_store (Throws (ProviderError ''fetch failed'')))
        embeddings_answer ''VPN down'' ''Cannot connect''"
    by (simp add: collaborator_failure_def search_fails_def generateEmbedding_def
          embeddings_answer_def ready_store_def)
  have v: "findSimilarTickets (ready_store (Throws (ProviderError ''fetch failed'')))
      embeddings_answer ''VPN down'' ''Cannot connect''
   = Inr \<lparr>SimilarityOutcome.success = False, error = Some ''Vector similarity search failed'', results = [],
          similarTickets = []\<rparr>"
    by (simp add: findSimilarTickets_def findSimilarTickets_try_def ready_store_def resolved_def
          generateEmbedding_def embeddings_answer_def query_similar_tickets_def failure_def)
  from findSimilarTickets_degrades [of "ready_store (Throws (ProviderError ''fetch failed''))"
      embeddings_answer "''VPN down''" "''Cannot connect''"] c v
  show ?thesis by simp
qed


subsection \<open>The tally in closed form\<close>

lemma first_seen_snoc:
  "first_seen (gs @ [g]) = (if g \<in> set gs then first_seen gs else first_seen gs @ [g])"
  by (simp add: first_seen_def)

lemma set_first_seen [simp]: "set (first_seen gs) = set gs"
  by (simp add: first_seen_def)

lemma distinct_first_seen [simp]: "distinct (first_seen gs)"
  by (simp add: first_seen_def)

lemma first_seen_Nil [simp]: "first_seen [] = []"
  by (simp add: first_seen_def)

lemma map_of_tally_of:
  "map_of (tally_of gs) g = (if g \<in> set gs then Some (Count (count_list gs g)) else None)"
  by (simp add: tally_of_def map_of_map_restrict restrict_map_def)

lemma put_new:
  "g \<notin> set ks \<Longrightarrow> put g v (map (\<lambda>h. (h, f h)) ks) = map (\<lambda>h. (h, f h)) ks @ [(g, v)]"
  by (induction ks) auto

lemma put_old:
  "g \<in> set ks \<Longrightarrow> distinct ks \<Longrightarrow>
   put g v (map (\<lambda>h. (h, f h)) ks) = map (\<lambda>h. (h, if h = g then v else f h)) ks"
proof (induction ks)
  case Nil
  then show ?case by simp
next
  case (Cons k ks)
  show ?case
  proof (cases "k = g")
    case True
    with Cons.prems have "g \<notin> set ks" by simp
    then have "map (\<lambda>h. (h, f h)) ks = map (\<lambda>h. (h, if h = g then v else f h)) ks"
      by (intro map_cong) auto
    with True show ?thesis by simp
  next
    case False
    with Cons show ?thesis by simp
  qed
qed

lemma tally_step:
  assumes "g \<notin> set Object_prototype_members"
  shows "assign g (plus_one g (map_of (tally_of gs) g)) (tally_of gs) = tally_of (gs @ [g])"
proof -
  from assms have p: "g \<noteq> ''__proto__''"
    by (auto simp: Object_prototype_members_def)
  show ?thesis
  proof (cases "g \<in> set gs")
    case True
    have "put g (Count (count_list gs g + 1)) (tally_of gs)
          = map (\<lambda>h. (h, if h = g then Count (count_list gs g + 1) else Count (count_list gs h)))
              (first_seen gs)"
      unfolding tally_of_def using True by (intro put_old) simp_all
    also have "\<dots> = tally_of (gs @ [g])"
      using True by (auto simp: tally_of_def first_seen_snoc)
    finally show ?thesis
      using True p by (simp add: assign_def plus_one_def map_of_tally_of)
  next
    case False
    have "put g (Count 1) (tally_of gs) = tally_of gs @ [(g, Count 1)]"
      unfolding tally_of_def using False by (intro put_new) simp
    also have "\<dots> = tally_of (gs @ [g])"
      using False by (auto simp: tally_of_def first_seen_snoc)
    finally show ?thesis
      using False p assms by (simp add: assign_def plus_one_def map_of_tally_of)
  qed
qed

lemma labels_Cons:
  "labels (t # ts) =
     (case assigned_group t of None \<Rightarrow> [] | Some g \<Rightarrow> if g = [] then [] else [g]) @ labels ts"
  by (simp add: labels_def)

lemma count_groups_tally:
  assumes "\<forall>g\<in>set (labels ts). g \<notin> set Object_prototype_members"
  shows "count_groups ts (tally_of pre, length pre)
         = (tally_of (pre @ labels ts), length (pre @ labels ts))"
  using assms
proof (induction ts arbitrary: pre)
  case Nil
  then show ?case by (simp add: labels_def)
next
  case (Cons t ts)
  show ?case
  proof (cases "assigned_group t")
    case None
    with Cons show ?thesis by (simp add: labels_Cons)
  next
    case (Some g)
    show ?thesis
    proof (cases "g = []")
      case True
      with Some Cons show ?thesis by (simp add: labels_Cons)
    next
      case False
      with Some Cons.prems have m: "g \<notin> set Object_prototype_members"
        and r: "\<forall>g\<in>set (labels ts). g \<notin> set Object_prototype_members"
        by (simp_all add: labels_Cons)
      from Cons.IH [OF r, of "pre @ [g]"] tally_step [OF m, of pre] Some False
      show ?thesis by (simp add: labels_Cons)
    qed
  qed
qed

lemma count_groups_labels:
  assumes "\<forall>g\<in>set (labels ts). g \<notin> set Object_prototype_members"
  shows "count_groups ts ([], 0) = (tally_of (labels ts), length (labels ts))"
  using count_groups_tally [OF assms, of "[]"] by (simp add: tally_of_def)

lemma insort_key_map_fst:
  "insort_key (\<lambda>(k, v). f k) (g, c g) (map (\<lambda>h. (h, c h)) ks)
   = map (\<lambda>h. (h, c h)) (insort_key f g ks)"
  by (induction ks) auto

lemma sort_key_map_fst:
  "sort_key (\<lambda>(k, v). f k) (map (\<lambda>h. (h, c h)) ks) = map (\<lambda>h. (h, c h)) (sort_key f ks)"
  by (induction ks) (auto simp: insort_key_map_fst)

lemma filter_map_fst:
  "filter (\<lambda>(k, v). P k) (map (\<lambda>h. (h, c h)) ks) = map (\<lambda>h. (h, c h)) (filter P ks)"
  by (induction ks) auto

lemma Object_entries_tally_of:
  "Object_entries (tally_of gs) = map (\<lambda>g. (g, Count (count_list gs g))) (key_order gs)"
  by (simp add: Object_entries_def tally_of_def key_order_def filter_map_fst sort_key_map_fst)

lemma set_key_order [simp]: "set (key_order gs) = set gs"
  by (auto simp: key_order_def)

lemma distinct_key_order [simp]: "distinct (key_order gs)"
  by (auto simp: key_order_def)

lemma key_order_no_index:
  "\<forall>g\<in>set gs. \<not> is_array_index g \<Longrightarrow> key_order gs = first_seen gs"
  by (simp add: key_order_def filter_empty_conv)

lemma group_confidence_entry:
  assumes "g \<in> set gs"
  shows "group_confidence (length gs) (g, Count (count_list gs g)) = entry_of gs g"
proof -
  from assms have "length gs \<noteq> 0" by auto
  then show ?thesis
    by (simp add: group_confidence_def entry_of_def share_def share_of_def Math_round_def
          times_double_def divide_double_def)
qed

lemma entries_key_order:
  "map (group_confidence (length gs)) (Object_entries (tally_of gs))
   = map (entry_of gs) (key_order gs)"
  by (simp add: Object_entries_tally_of group_confidence_entry)

lemma insert_sorted_insort:
  assumes "\<forall>e\<in>set (a # bs). GroupConfidence.confidence e = Num (c e)"
  shows "insert_sorted a bs = insort_key (\<lambda>e. - c e) a bs"
  using assms
  by (induction bs) (auto simp: compare_confidence_def minus_double_def double_pos_iff)

lemma Array_sort_sort_key:
  assumes "\<forall>e\<in>set xs. GroupConfidence.confidence e = Num (c e)"
  shows "Array_sort xs = sort_key (\<lambda>e. - c e) xs"
  using assms
proof (induction xs)
  case Nil
  then show ?case by (simp add: Array_sort_def)
next
  case (Cons a xs)
  then have "Array_sort xs = sort_key (\<lambda>e. - c e) xs" by simp
  moreover have "insert_sorted a (sort_key (\<lambda>e. - c e) xs)
      = insort_key (\<lambda>e. - c e) a (sort_key (\<lambda>e. - c e) xs)"
    using Cons.prems by (intro insert_sorted_insort) simp
  ultimately show ?case by (simp add: Array_sort_def)
qed

lemma share_of_bounds:
  assumes "c \<le> n"
  shows "0 \<le> share_of c n \<and> share_of c n \<le> 100"
proof -
  define q :: rat where "q = double (of_nat c / of_nat n)"
  define y :: rat where "y = double (q * 100)"
  have one: "(of_int 1 :: rat) < pow2 53" and hundred: "(of_int 100 :: rat) < pow2 53"
    by (simp_all add: pow2_def)
  from assms have "(of_nat c :: rat) \<le> of_nat n" by simp
  then have "(of_nat c :: rat) / of_nat n \<le> of_int 1"
    by (cases "n = 0") (simp_all add: divide_le_eq)
  moreover have "(0::rat) \<le> of_nat c / of_nat n" by simp
  ultimately have q: "0 \<le> q" "q \<le> 1"
    unfolding q_def using double_nonneg double_le_int [OF _ _ one] by simp_all
  then have "0 \<le> q * 100" "q * 100 \<le> of_int 100" by simp_all
  then have y: "0 \<le> y" "y \<le> 100"
    unfolding y_def using double_nonneg double_le_int [OF _ _ hundred] by simp_all
  from y(1) have "0 \<le> \<lfloor>y + 1 / 2\<rfloor>" by simp
  moreover have "\<lfloor>y + 1 / 2\<rfloor> \<le> 100"
  proof -
    from y(2) have "y + 1 / 2 < of_int 101" by simp
    then have "\<lfloor>y + 1 / 2\<rfloor> < 101" by (simp only: floor_less_iff)
    then show ?thesis by simp
  qed
  ultimately show ?thesis
    by (simp add: share_of_def q_def y_def)
qed

lemma share_bounds: "0 \<le> share gs g \<and> share gs g \<le> 100"
  unfolding share_def by (rule share_of_bounds) (rule count_le_length)

lemma share_of_small_table:
  "\<forall>n\<in>set [0..<6]. \<forall>c\<in>set [0..<Suc n]. share_of c n = exact_share_of c n"
  by code_simp

lemma share_of_small:
  assumes "c \<le> n" and "n \<le> 5"
  shows "share_of c n = exact_share_of c n"
proof -
  from assms have "n \<in> set [0..<6]" and "c \<in> set [0..<Suc n]" by auto
  with share_of_small_table show ?thesis by blast
qed

lemma share_small:
  "length gs \<le> 5 \<Longrightarrow> share gs g = exact_share_of (count_list gs g) (length gs)"
  unfolding share_def by (rule share_of_small) (simp_all add: count_le_length)

lemma results_closed_form:
  assumes "\<forall>g\<in>set gs. g \<notin> set Object_prototype_members" and "gs = labels tickets"
  shows "(case count_groups tickets ([], 0) of
            (groupCounts, totalMatches) \<Rightarrow>
              Array_sort (map (group_confidence totalMatches) (Object_entries groupCounts)))
         = sort_key (\<lambda>e. - share gs (GroupConfidence.name e)) (map (entry_of gs) (key_order gs))"
proof -
  have "Array_sort (map (entry_of gs) (key_order gs))
        = sort_key (\<lambda>e. - share gs (GroupConfidence.name e)) (map (entry_of gs) (key_order gs))"
    by (intro Array_sort_sort_key) (auto simp: entry_of_def)
  with assms show ?thesis
    by (simp add: count_groups_labels entries_key_order)
qed

lemma insort_key_map:
  "insort_key f (h x) (map h xs) = map h (insort_key (\<lambda>y. f (h y)) x xs)"
  by (induction xs) auto

lemma sort_key_map:
  "sort_key f (map h xs) = map h (sort_key (\<lambda>y. f (h y)) xs)"
  by (induction xs) (auto simp: insort_key_map)

lemma name_entry_of [simp]: "GroupConfidence.name (entry_of gs g) = g"
  by (simp add: entry_of_def)

lemma success_outcome:
  assumes "findSimilarTickets supabase embeddings subject description = Inr outcome"
    and "SimilarityOutcome.success outcome"
  shows "results outcome =
           (case count_groups (similarTickets outcome) ([], 0) of
              (groupCounts, totalMatches) \<Rightarrow>
                Array_sort (map (group_confidence totalMatches) (Object_entries groupCounts)))"
    and "\<exists>embedding response.
           generateEmbedding embeddings (trim (subject @ '' '' @ description)) = Inr embedding
           \<and> match_tickets supabase embedding 0.5 5 = Resolves response
           \<and> PostgrestResponse.error response = None
           \<and> data response = Some (similarTickets outcome)"
proof -
  from assms(1) have t: "findSimilarTickets_try supabase embeddings subject description = Inr outcome"
    using assms(2) by (auto simp: findSimilarTickets_def split: sum.splits)
  from try_outcome [OF t] assms(2) obtain embedding where
    g: "generateEmbedding embeddings (trim (subject @ '' '' @ description)) = Inr embedding"
    and o: "outcome = query_similar_tickets supabase embedding"
    by auto
  from o assms(2) show "results outcome =
           (case count_groups (similarTickets outcome) ([], 0) of
              (groupCounts, totalMatches) \<Rightarrow>
                Array_sort (map (group_confidence totalMatches) (Object_entries groupCounts)))"
    by (auto simp: query_similar_tickets_def split: awaited.splits option.splits prod.splits)
  from o assms(2) obtain response where
    "match_tickets supabase embedding 0.5 5 = Resolves response"
    "PostgrestResponse.error response = None"
    "data response = Some (similarTickets outcome)"
    by (auto simp: query_similar_tickets_def split: awaited.splits option.splits prod.splits)
  with g show "\<exists>embedding response.
           generateEmbedding embeddings (trim (subject @ '' '' @ description)) = Inr embedding
           \<and> match_tickets supabase embedding 0.5 5 = Resolves response
           \<and> PostgrestResponse.error response = None
           \<and> data response = Some (similarTickets outcome)"
    by blast
qed

lemma results_by_share:
  assumes "findSimilarTickets supabase embeddings subject description = Inr outcome"
    and "SimilarityOutcome.success outcome"
    and "\<forall>g\<in>set (labels (similarTickets outcome)). g \<notin> set Object_prototype_members"
  shows "results outcome =
           map (entry_of (labels (similarTickets outcome)))
             (sort_key (\<lambda>g. - share (labels (similarTickets outcome)) g)
                (key_order (labels (similarTickets outcome))))"
  using success_outcome(1) [OF assms(1,2)] results_closed_form [OF assms(3) refl]
  by (simp add: sort_key_map)

text \<open>
  C6, as stated, at two concrete answers of \<^verbatim>\<open>match_tickets\<close>. For the neighbours
  \<open>B\<close> and \<open>1\<close>, both at confidence 50, the group \<open>1\<close> comes first although \<open>B\<close>
  was met first: the key \<open>1\<close> is an array index, and \<^verbatim>\<open>Object.entries\<close> lists such
  keys before the others. For a neighbour of the group \<open>constructor\<close> the read of
  \<^verbatim>\<open>groupCounts[key]\<close> finds the inherited member of \<^verbatim>\<open>Object.prototype\<close>, the count
  becomes a string and the confidence \<^verbatim>\<open>NaN\<close>.
\<close>

theorem similarity_tie_order_counterexample:
  "findSimilarTickets (ready_store (resolved (Some [neighbour ''B'', neighbour ''1''])))
     embeddings_answer ''VPN down'' ''Cannot connect''
   = Inr \<lparr>SimilarityOutcome.success = True, error = None,
          results = [\<lparr>GroupConfidence.name = ''1'', confidence = Num 50, count = Count 1\<rparr>,
                     \<lparr>GroupConfidence.name = ''B'', confidence = Num 50, count = Count 1\<rparr>],
          similarTickets = [neighbour ''B'', neighbour ''1'']\<rparr>
   \<and> first_seen (labels [neighbour ''B'', neighbour ''1'']) = [''B'', ''1'']
   \<and> findSimilarTickets (ready_store (resolved (Some [neighbour ''constructor''])))
       embeddings_answer ''VPN down'' ''Cannot connect''
   = Inr \<lparr>SimilarityOutcome.success = True, error = None,
          results = [\<lparr>GroupConfidence.name = ''constructor'', confidence = NaN,
                      count = Garbled ''constructor'' 1\<rparr>],
          similarTickets = [neighbour ''constructor'']\<rparr>"
  by code_simp

text \<open>
  C6, amended. Let the labelled neighbours be the rows \<^verbatim>\<open>match_tickets\<close> returned for
  the embedding of the trimmed text, the threshold 0.5 and the count 5 whose group is
  neither \<^verbatim>\<open>null\<close> nor empty, and let none of their groups be the name of a member of
  \<^verbatim>\<open>Object.prototype\<close>. Whenever the classifier returns a success, the names of the
  results are the groups of the labelled neighbours, each once; the confidence of an
  entry is its share \<open>(count / total) * 100\<close> of the labelled neighbours as the doubles
  give it, rounded to the nearest integer, a half going up; it lies between 0 and 100,
  and is the rounded exact value of \<open>100 * count / total\<close> when there are at most five
  labelled neighbours; its count is its number of occurrences; the results are in
  descending order of confidence; and entries of equal confidence are in the key order
  of the tally object: the array indices in ascending order first, then the other
  groups as first met, which is the order of first occurrence when no group is an array
  index.
\<close>

theorem findSimilarTickets_success_results:
  assumes "findSimilarTickets supabase embeddings subject description = Inr outcome"
    and "SimilarityOutcome.success outcome"
    and "\<forall>g\<in>set (labels (similarTickets outcome)). g \<notin> set Object_prototype_members"
  shows "(\<exists>embedding response.
           generateEmbedding embeddings (trim (subject @ '' '' @ description)) = Inr embedding
           \<and> match_tickets supabase embedding 0.5 5 = Resolves response
           \<and> PostgrestResponse.error response = None
           \<and> data response = Some (similarTickets outcome))
     \<and> set (map GroupConfidence.name (results outcome)) = set (labels (similarTickets outcome))
     \<and> distinct (map GroupConfidence.name (results outcome))
     \<and> (\<forall>e\<in>set (results outcome).
           GroupConfidence.confidence e
             = Num (share (labels (similarTickets outcome)) (GroupConfidence.name e))
           \<and> 0 \<le> share (labels (similarTickets outcome)) (GroupConfidence.name e)
           \<and> share (labels (similarTickets outcome)) (GroupConfidence.name e) \<le> 100
           \<and> (length (labels (similarTickets outcome)) \<le> 5 \<longrightarrow>
                share (labels (similarTickets outcome)) (GroupConfidence.name e)
                  = exact_share_of
                      (count_list (labels (similarTickets outcome)) (GroupConfidence.name e))
                      (length (labels (similarTickets outcome))))
           \<and> GroupConfidence.count e
             = Count (count_list (labels (similarTickets outcome)) (GroupConfidence.name e)))
     \<and> sorted_wrt (\<lambda>a b. share (labels (similarTickets outcome)) (GroupConfidence.name b)
                          \<le> share (labels (similarTickets outcome)) (GroupConfidence.name a))
          (results outcome)
     \<and> (\<forall>c. map GroupConfidence.name
                (filter (\<lambda>e. GroupConfidence.confidence e = Num c) (results outcome))
              = filter (\<lambda>g. share (labels (similarTickets outcome)) g = c)
                  (key_order (labels (similarTickets outcome))))
     \<and> ((\<forall>g\<in>set (labels (similarTickets outcome)). \<not> is_array_index g) \<longrightarrow>
          key_order (labels (similarTickets outcome)) = first_seen (labels (similarTickets outcome)))"
proof -
  define gs where "gs = labels (similarTickets outcome)"
  define K where "K = sort_key (\<lambda>g. - share gs g) (key_order gs)"
  note rows = success_outcome(2) [OF assms(1,2)]
  have R: "results outcome = map (entry_of gs) K"
    unfolding K_def gs_def by (rule results_by_share [OF assms])
  have names: "map GroupConfidence.name (results outcome) = K"
    by (simp add: R comp_def)
  have setK: "set K = set gs" and distK: "distinct K"
    by (simp_all add: K_def)
  have entries: "GroupConfidence.confidence e = Num (share gs (GroupConfidence.name e))
      \<and> 0 \<le> share gs (GroupConfidence.name e) \<and> share gs (GroupConfidence.name e) \<le> 100
      \<and> (length gs \<le> 5 \<longrightarrow>
           share gs (GroupConfidence.name e)
             = exact_share_of (count_list gs (GroupConfidence.name e)) (length gs))
      \<and> GroupConfidence.count e = Count (count_list gs (GroupConfidence.name e))"
    if "e \<in> set (results outcome)" for e
  proof -
    from that R obtain g where "e = entry_of gs g" by auto
    then show ?thesis
      using share_bounds [of gs g] share_small [of gs g] by (simp add: entry_of_def)
  qed
  have "sorted (map (\<lambda>g. - share gs g) K)"
    unfolding K_def by (rule sorted_sort_key)
  then have "sorted_wrt (\<lambda>a b. share gs b \<le> share gs a) K"
    by (simp add: sorted_map)
  then have desc: "sorted_wrt (\<lambda>a b. share gs (GroupConfidence.name b)
                              \<le> share gs (GroupConfidence.name a)) (results outcome)"
    by (simp add: R sorted_wrt_map)
  have ties: "map GroupConfidence.name
                (filter (\<lambda>e. GroupConfidence.confidence e = Num c) (results outcome))
              = filter (\<lambda>g. share gs g = c) (key_order gs)" for c
  proof -
    have "map GroupConfidence.name
            (filter (\<lambda>e. GroupConfidence.confidence e = Num c) (map (entry_of gs) K))
          = filter (\<lambda>g. share gs g = c) K"
      by (induction K) (auto simp: entry_of_def)
    also have "\<dots> = filter (\<lambda>g. - share gs g = - c) K" by simp
    also have "\<dots> = filter (\<lambda>g. - share gs g = - c) (key_order gs)"
      unfolding K_def by (rule sort_key_stable)
    finally show ?thesis by (simp add: R)
  qed
  have plain: "(\<forall>g\<in>set gs. \<not> is_array_index g) \<longrightarrow> key_order gs = first_seen gs"
    using key_order_no_index by blast
  from names setK distK entries desc ties plain have
    "set (map GroupConfidence.name (results outcome)) = set gs
     \<and> distinct (map GroupConfidence.name (results outcome))
     \<and> (\<forall>e\<in>set (results outcome).
           GroupConfidence.confidence e = Num (share gs (GroupConfidence.name e))
           \<and> 0 \<le> share gs (GroupConfidence.name e)
           \<and> share gs (GroupConfidence.name e) \<le> 100
           \<and> (length gs \<le> 5 \<longrightarrow>
                share gs (GroupConfidence.name e)
                  = exact_share_of (count_list gs (GroupConfidence.name e)) (length gs))
           \<and> GroupConfidence.count e = Count (count_list gs (GroupConfidence.name e)))
     \<and> sorted_wrt (\<lambda>a b. share gs (GroupConfidence.name b) \<le> share gs (GroupConfidence.name a))
          (results outcome)
     \<and> (\<forall>c. map GroupConfidence.name
                (filter (\<lambda>e. GroupConfidence.confidence e = Num c) (results outcome))
              = filter (\<lambda>g. share gs g = c) (key_order gs))
     \<and> ((\<forall>g\<in>set gs. \<not> is_array_index g) \<longrightarrow> key_order gs = first_seen gs)"
    by simp
  with rows show ?thesis
    unfolding gs_def by (intro conjI) simp_all
qed

theorem findSimilarTickets_success_results_witness:
  "findSimilarTickets
     (strict_store (replicate 23 (neighbour ''Security'') @ replicate 17 (neighbour ''7'')))
     (embeddings_of ''VPN down Cannot connect'') ''  VPN down''
     (''Cannot connect'' @ [CHR 0xA0, CHR 0x20])
   = Inr \<lparr>SimilarityOutcome.success = True, error = None,
          results = [\<lparr>GroupConfidence.name = ''Security'', confidence = Num 57, count = Count 23\<rparr>,
                     \<lparr>GroupConfidence.name = ''7'', confidence = Num 43, count = Count 17\<rparr>],
          similarTickets = replicate 23 (neighbour ''Security'') @ replicate 17 (neighbour ''7'')\<rparr>
   \<and> share (labels (replicate 23 (neighbour ''Security'') @ replicate 17 (neighbour ''7'')))
       ''Security'' = 57
   \<and> exact_share_of 23 40 = 58
   \<and> key_order (labels (replicate 23 (neighbour ''Security'') @ replicate 17 (neighbour ''7'')))
       = [''7'', ''Security'']
   \<and> findSimilarTickets
     (strict_store [neighbour ''Security'', neighbour ''Network'', neighbour ''Security''])
     (embeddings_of ''VPN down Cannot connect'') ''  VPN down''
     (''Cannot connect'' @ [CHR 0xA0, CHR 0x20])
   = Inr \<lparr>SimilarityOutcome.success = True, error = None,
          results = [\<lparr>GroupConfidence.name = ''Security'', confidence = Num 67, count = Count 2\<rparr>,
                     \<lparr>GroupConfidence.name = ''Network'', confidence = Num 33, count = Count 1\<rparr>],
          similarTickets = [neighbour ''Security'', neighbour ''Network'', neighbour ''Security'']\<rparr>
   \<and> exact_share_of 2 3 = 67
   \<and> exact_share_of 1 3 = 33
   \<and> key_order (labels [neighbour ''Security'', neighbour ''Network'', neighbour ''Security''])
       = [''Security'', ''Network'']
   \<and> double 9007199254740993 = 9007199254740992
   \<and> double 9007199254740995 = 9007199254740996"
proof -
  have ties: "double 9007199254740993 = 9007199254740992
      \<and> double 9007199254740995 = 9007199254740996"
    by code_simp
  let ?rows = "replicate 23 (neighbour ''Security'') @ replicate 17 (neighbour ''7'')"
  let ?o = "\<lparr>SimilarityOutcome.success = True, error = None,
          results = [\<lparr>GroupConfidence.name = ''Security'', confidence = Num 57, count = Count 23\<rparr>,
                     \<lparr>GroupConfidence.name = ''7'', confidence = Num 43, count = Count 17\<rparr>],
          similarTickets = ?rows\<rparr>"
  have run: "findSimilarTickets (strict_store ?rows) (embeddings_of ''VPN down Cannot connect'')
      ''  VPN down'' (''Cannot connect'' @ [CHR 0xA0, CHR 0x20]) = Inr ?o"
    by code_simp
  have ok: "SimilarityOutcome.success ?o" by simp
  have members: "\<forall>g\<in>set (labels (similarTickets ?o)). g \<notin> set Object_prototype_members"
    by code_simp
  have x: "exact_share_of 23 40 = 58" by code_simp
  have k: "key_order (labels ?rows) = [''7'', ''Security'']" by code_simp
  from findSimilarTickets_success_results [OF run ok members]
  have "\<forall>e\<in>set (results ?o).
           GroupConfidence.confidence e
             = Num (share (labels (similarTickets ?o)) (GroupConfidence.name e))"
    by blast
  then have s: "share (labels ?rows) ''Security'' = 57" by simp
  let ?few = "[neighbour ''Security'', neighbour ''Network'', neighbour ''Security'']"
  let ?q = "\<lparr>SimilarityOutcome.success = True, error = None,
          results = [\<lparr>GroupConfidence.name = ''Security'', confidence = Num 67, count = Count 2\<rparr>,
                     \<lparr>GroupConfidence.name = ''Network'', confidence = Num 33, count = Count 1\<rparr>],
          similarTickets = ?few\<rparr>"
  have run': "findSimilarTickets (strict_store ?few) (embeddings_of ''VPN down Cannot connect'')
      ''  VPN down'' (''Cannot connect'' @ [CHR 0xA0, CHR 0x20]) = Inr ?q"
    by code_simp
  have ok': "SimilarityOutcome.success ?q" by simp
  have members': "\<forall>g\<in>set (labels (similarTickets ?q)). g \<notin> set Object_prototype_members"
    by code_simp
  have l: "labels ?few = [''Security'', ''Network'', ''Security'']"
    by (simp add: labels_def neighbour_def)
  have plain: "\<forall>g\<in>set (labels (similarTickets ?q)). \<not> is_array_index g"
    by code_simp
  have f: "first_seen (labels ?few) = [''Security'', ''Network'']"
    by code_simp
  note t = findSimilarTickets_success_results [OF run' ok' members']
  from t have "\<forall>e\<in>set (results ?q).
       GroupConfidence.confidence e
         = Num (share (labels (similarTickets ?q)) (GroupConfidence.name e))
       \<and> (length (labels (similarTickets ?q)) \<le> 5 \<longrightarrow>
            share (labels (similarTickets ?q)) (GroupConfidence.name e)
              = exact_share_of
                  (count_list (labels (similarTickets ?q)) (GroupConfidence.name e))
                  (length (labels (similarTickets ?q))))"
    by blast
  then have x': "exact_share_of 2 3 = 67 \<and> exact_share_of 1 3 = 33"
    by (simp add: l eval_nat_numeral)
  from t have "(\<forall>g\<in>set (labels (similarTickets ?q)). \<not> is_array_index g) \<longrightarrow>
      key_order (labels (similarTickets ?q)) = first_seen (labels (similarTickets ?q))"
    by blast
  with plain have k': "key_order (labels ?few) = [''Security'', ''Network'']"
    by (simp add: f)
  from run s x k run' x' k' ties show ?thesis by simp
qed

section \<open>Properties of the request handler\<close>

text \<open>
  C10. When the body of the request has a non-empty subject and the pattern classifier
  throws, the handler answers with status 500 and the message of the exception, and the
  only function of the route it has called is the pattern classifier: the similarity
  classifier is not called, whatever the store and the embedding provider would answer.
\<close>

theorem POST_pattern_failure:
  assumes "request_json = Resolves request_body"
    and "body_subject request_body = Some subject" and "subject \<noteq> []"
    and "fst (classifyWithOpenAI JSON_parse chat 0 subject
               (case body_description request_body of None \<Rightarrow> [] | Some d \<Rightarrow> d)) = Inl e"
  shows "POST JSON_parse chat embeddings supabase request_json =
           (Responds (NextResponse_json
              (ErrorBody (''Failed to classify ticket: '' @ message e)) 500),
            [Called_classifyWithOpenAI])"
  using assms by (simp add: POST_def internal_error_def Let_def)

theorem POST_pattern_failure_witness:
  "POST (JSON_parse_table []) chat_fails embeddings_answer
     (ready_store (resolved (Some [neighbour ''Security''])))
     (Resolves \<lparr>body_subject = Some ''VPN down'', body_description = None\<rparr>) =
     (Responds (NextResponse_json
        (ErrorBody ''Failed to classify ticket: 429 You exceeded your current quota'') 500),
      [Called_classifyWithOpenAI])
   \<and> (\<exists>outcome. findSimilarTickets (ready_store (resolved (Some [neighbour ''Security''])))
                    embeddings_answer ''VPN down'' [] = Inr outcome
                  \<and> SimilarityOutcome.success outcome)"
proof -
  have c: "fst (classifyWithOpenAI (JSON_parse_table []) chat_fails 0 ''VPN down''
             (case body_description \<lparr>body_subject = Some ''VPN down'', body_description = None\<rparr>
              of None \<Rightarrow> [] | Some d \<Rightarrow> d))
           = Inl (ProviderError ''429 You exceeded your current quota'')"
    by (simp add: classifyWithOpenAI_def chat_fails_def)
  have s: "\<exists>outcome. findSimilarTickets (ready_store (resolved (Some [neighbour ''Security''])))
                    embeddings_answer ''VPN down'' [] = Inr outcome
                  \<and> SimilarityOutcome.success outcome"
    by (simp add: findSimilarTickets_def findSimilarTickets_try_def ready_store_def resolved_def
          generateEmbedding_def embeddings_answer_def query_similar_tickets_def
          split: prod.splits)
  show ?thesis
    using POST_pattern_failure [OF refl _ _ c, of embeddings_answer
        "ready_store (resolved (Some [neighbour ''Security'']))"] s
    by simp
qed


end
